theory Spec2Isabelle
  imports Main
begin

section \<open>Data model (entities/kyc.entity, dto/kyc.dto)\<close>

text \<open>
  Dates are compared only by their position in time, so a \<open>Date\<close> is the number of
  milliseconds since the epoch. The clock (\<open>new Date()\<close>) is an argument \<open>now\<close> of
  every operation that reads it; an operation that reads it more than once reads the
  same time.
\<close>

type_synonym timestamp = int

datatype KycStatus = PENDING | IN_PROGRESS | APPROVED | REJECTED | EXPIRED | REQUIRES_REVIEW

datatype KycLevel = BASIC | INTERMEDIATE | ADVANCED

text \<open>Values of type \<open>any\<close> stored in \<open>Record<string, any>\<close> bags.\<close>

datatype json =
    JNull
  | JBool bool
  | JNum int
  | JStr string
  | JArr "json list"
  | JObj "(string \<times> json) list"

type_synonym metadata_bag = "string \<rightharpoonup> json"

record RiskAssessment =
  riskLevel :: string
  score :: int
  flags :: "string list"

text \<open>
  The entity \<open>KycVerification\<close>. A nullable column is an \<open>option\<close>. The field \<open>id\<close> of
  the source is \<open>kycId\<close> here (the name the emitted events give it), since \<open>id\<close> is the
  identity function of HOL.
\<close>

record KycVerification =
  kycId :: string
  userId :: string
  verificationId :: string
  status :: KycStatus
  level :: KycLevel
  verificationUrl :: "string option"
  firstName :: "string option"
  lastName :: "string option"
  email :: "string option"
  phoneNumber :: "string option"
  dateOfBirth :: "string option"
  nationality :: "string option"
  documentType :: "string option"
  documentNumber :: "string option"
  address :: "string option"
  city :: "string option"
  state :: "string option"
  postalCode :: "string option"
  country :: "string option"
  metadata :: "metadata_bag option"
  rejectionReason :: "string option"
  riskAssessment :: "RiskAssessment option"
  submittedAt :: "timestamp option"
  completedAt :: "timestamp option"
  expiresAt :: "timestamp option"
  provider :: "string option"
  attemptCount :: int
  isManualReview :: bool
  reviewedBy :: "string option"
  reviewNotes :: "string option"
  createdAt :: timestamp
  updatedAt :: timestamp

text \<open>
  The DTOs. An optional property is an \<open>option\<close>, \<open>None\<close> when the property is absent.
  Their fields carry a prefix, since the entity already owns the plain names.
\<close>

record InitiateKycDto =
  i_userId :: string
  i_level :: "KycLevel option"
  i_firstName :: string
  i_lastName :: string
  i_email :: string
  i_phoneNumber :: "string option"
  i_dateOfBirth :: "string option"
  i_country :: "string option"
  i_metadata :: "metadata_bag option"

record UpdateKycDto =
  u_address :: "string option"
  u_city :: "string option"
  u_state :: "string option"
  u_postalCode :: "string option"
  u_documentType :: "string option"
  u_documentNumber :: "string option"
  u_metadata :: "metadata_bag option"

record ManualReviewDto =
  m_status :: KycStatus
  m_reviewNotes :: string
  m_reviewedBy :: string

text \<open>
  The \<open>data\<close> argument of \<open>handleWebhook\<close> (typed \<open>any\<close>): the properties the
  function reads.
\<close>

record WebhookData =
  d_rejectionReason :: "string option"
  d_riskAssessment :: "RiskAssessment option"
  d_metadata :: "metadata_bag option"
  d_requiresReview :: "json option"

record KycProviderResponse =
  p_verificationId :: string
  p_verificationUrl :: string
  p_status :: string
  p_expiresAt :: "timestamp option"

text \<open>Exceptions of the source, as values.\<close>

datatype error =
    NotFoundException string
  | BadRequestException string
  | ConflictException string
  | HttpException string nat

datatype event =
    KycInitiated string string string
  | KycStatusChanged string string KycStatus KycStatus string
  | KycApproved string string KycLevel
  | KycRejected string string "string option"
  | KycManuallyReviewed string string KycStatus string

section \<open>JavaScript truthiness\<close>

fun truthy :: "json \<Rightarrow> bool" where
  "truthy JNull = False"
| "truthy (JBool b) = b"
| "truthy (JNum n) = (n \<noteq> 0)"
| "truthy (JStr s) = (s \<noteq> [])"
| "truthy (JArr xs) = True"
| "truthy (JObj kvs) = True"

text \<open>An optional string is truthy when it is present and not empty.\<close>

fun truthyStr :: "string option \<Rightarrow> bool" where
  "truthyStr None = False"
| "truthyStr (Some s) = (s \<noteq> [])"

fun truthyOpt :: "json option \<Rightarrow> bool" where
  "truthyOpt None = False"
| "truthyOpt (Some v) = truthy v"

text \<open>Object spread of a nullable bag: \<open>{...null}\<close> is the empty object.\<close>

fun spread :: "metadata_bag option \<Rightarrow> metadata_bag" where
  "spread None = Map.empty"
| "spread (Some m) = m"

section \<open>The repository\<close>

text \<open>
  The table \<open>kyc_verifications\<close> is the list of its rows; the event emitter is the list
  of the events emitted so far. \<open>findOne\<close> with a \<open>where\<close> clause returns the first
  row that satisfies it. Failures of the database itself (a lost connection, a violated
  constraint) are not part of the model: \<open>findOne\<close> and \<open>save\<close> return.
\<close>

record world =
  rows :: "KycVerification list"
  emitted :: "event list"

definition findOne :: "(KycVerification \<Rightarrow> bool) \<Rightarrow> KycVerification list \<Rightarrow> KycVerification option" where
  "findOne P rs = find P rs"

text \<open>
  \<open>save\<close> of an entity that \<open>create\<close> built: the row is inserted with the generated
  primary key \<open>newId\<close> and the creation and update dates of the clock.
\<close>

definition saveNew :: "timestamp \<Rightarrow> string \<Rightarrow> KycVerification \<Rightarrow> KycVerification list
    \<Rightarrow> KycVerification \<times> KycVerification list" where
  "saveNew now newId kyc rs =
     (let saved = kyc\<lparr>kycId := newId, createdAt := now, updatedAt := now\<rparr>
      in (saved, rs @ [saved]))"

text \<open>
  \<open>save\<close> of an entity that was loaded: the row with its primary key is replaced, and
  the update date is the clock's.
\<close>

definition save :: "timestamp \<Rightarrow> KycVerification \<Rightarrow> KycVerification list
    \<Rightarrow> KycVerification \<times> KycVerification list" where
  "save now kyc rs =
     (let saved = kyc\<lparr>updatedAt := now\<rparr>
      in (saved, map (\<lambda>r. if kycId r = kycId saved then saved else r) rs))"

section \<open>The provider service, as the lifecycle service sees it\<close>

text \<open>
  The provider is reached over HTTP, so what \<open>createVerification\<close> answers is not
  decided by this code: the service is a record of its two operations, and every
  statement below holds for whatever they answer.
\<close>

record KycVerificationData =
  v_firstName :: "string option"
  v_lastName :: "string option"
  v_email :: "string option"
  v_phoneNumber :: "string option"
  v_dateOfBirth :: "string option"
  v_country :: "string option"
  v_level :: KycLevel
  v_userId :: string
  v_metadata :: "metadata_bag option"

record KycProviderService =
  createVerification :: "KycVerificationData \<Rightarrow> error + KycProviderResponse"
  getProviderName :: string

section \<open>KycService\<close>

definition isKycExpired :: "timestamp \<Rightarrow> KycVerification \<Rightarrow> bool" where
  "isKycExpired now kyc = (case expiresAt kyc of None \<Rightarrow> False | Some e \<Rightarrow> now > e)"

text \<open>\<open>dto.level || KycLevel.BASIC\<close>\<close>

fun levelOrBasic :: "KycLevel option \<Rightarrow> KycLevel" where
  "levelOrBasic None = BASIC"
| "levelOrBasic (Some l) = l"

text \<open>\<open>repository.create\<close>: the properties given, every other column at its default.\<close>

definition createEntity :: "timestamp \<Rightarrow> string \<Rightarrow> InitiateKycDto \<Rightarrow> KycProviderResponse
    \<Rightarrow> KycVerification" where
  "createEntity now providerName dto providerResponse =
     \<lparr> kycId = [],
       userId = i_userId dto,
       verificationId = p_verificationId providerResponse,
       status = PENDING,
       level = levelOrBasic (i_level dto),
       verificationUrl = Some (p_verificationUrl providerResponse),
       firstName = Some (i_firstName dto),
       lastName = Some (i_lastName dto),
       email = Some (i_email dto),
       phoneNumber = i_phoneNumber dto,
       dateOfBirth = (if truthyStr (i_dateOfBirth dto) then i_dateOfBirth dto else None),
       nationality = None,
       documentType = None,
       documentNumber = None,
       address = None,
       city = None,
       state = None,
       postalCode = None,
       country = i_country dto,
       metadata = i_metadata dto,
       rejectionReason = None,
       riskAssessment = None,
       submittedAt = Some now,
       completedAt = None,
       expiresAt = p_expiresAt providerResponse,
       provider = Some providerName,
       attemptCount = 1,
       isManualReview = False,
       reviewedBy = None,
       reviewNotes = None,
       createdAt = now,
       updatedAt = now \<rparr>"

text \<open>The object \<open>initiateKyc\<close> passes to \<open>createVerification\<close>.\<close>

definition initiateRequest :: "InitiateKycDto \<Rightarrow> KycVerificationData" where
  "initiateRequest dto =
     \<lparr> v_firstName = Some (i_firstName dto),
       v_lastName = Some (i_lastName dto),
       v_email = Some (i_email dto),
       v_phoneNumber = i_phoneNumber dto,
       v_dateOfBirth = i_dateOfBirth dto,
       v_country = i_country dto,
       v_level = levelOrBasic (i_level dto),
       v_userId = i_userId dto,
       v_metadata = i_metadata dto \<rparr>"

text \<open>The \<open>try\<close> block of \<open>initiateKyc\<close>; its \<open>catch\<close> logs and throws the error again.\<close>

definition initiateKycCreate :: "KycProviderService \<Rightarrow> timestamp \<Rightarrow> string \<Rightarrow> InitiateKycDto
    \<Rightarrow> world \<Rightarrow> error + (KycVerification \<times> world)" where
  "initiateKycCreate kycProviderService now newId dto w =
     (case createVerification kycProviderService (initiateRequest dto) of
        Inl e \<Rightarrow> Inl e
      | Inr providerResponse \<Rightarrow>
          (let kyc = createEntity now (getProviderName kycProviderService) dto providerResponse;
               (savedKyc, rows') = saveNew now newId kyc (rows w)
           in Inr (savedKyc,
                   \<lparr> rows = rows',
                     emitted = emitted w @
                       [KycInitiated (kycId savedKyc) (userId savedKyc) (verificationId savedKyc)] \<rparr>)))"

definition initiateKyc :: "KycProviderService \<Rightarrow> timestamp \<Rightarrow> string \<Rightarrow> InitiateKycDto \<Rightarrow> world
    \<Rightarrow> error + (KycVerification \<times> world)" where
  "initiateKyc kycProviderService now newId dto w =
     (case findOne (\<lambda>r. userId r = i_userId dto \<and> status r = IN_PROGRESS) (rows w) of
        Some existingKyc \<Rightarrow>
          Inl (ConflictException ''User already has a KYC verification in progress'')
      | None \<Rightarrow>
         (case findOne (\<lambda>r. userId r = i_userId dto \<and> status r = APPROVED) (rows w) of
            Some verifiedKyc \<Rightarrow>
              if \<not> isKycExpired now verifiedKyc
              then Inl (ConflictException ''User is already verified'')
              else initiateKycCreate kycProviderService now newId dto w
          | None \<Rightarrow> initiateKycCreate kycProviderService now newId dto w))"

definition getKycByVerificationId :: "string \<Rightarrow> world \<Rightarrow> error + KycVerification" where
  "getKycByVerificationId vid w =
     (case findOne (\<lambda>r. verificationId r = vid) (rows w) of
        None \<Rightarrow> Inl (NotFoundException ''KYC verification not found'')
      | Some kyc \<Rightarrow> Inr kyc)"

definition getKycById :: "string \<Rightarrow> world \<Rightarrow> error + KycVerification" where
  "getKycById i w =
     (case findOne (\<lambda>r. kycId r = i) (rows w) of
        None \<Rightarrow> Inl (NotFoundException ''KYC verification not found'')
      | Some kyc \<Rightarrow> Inr kyc)"

text \<open>
  \<open>Object.assign(kyc, dto)\<close>: every property the DTO carries overwrites the entity's;
  a property the DTO does not carry leaves the entity's as it is.
\<close>

fun assignProp :: "'a option \<Rightarrow> 'a option \<Rightarrow> 'a option" where
  "assignProp None old = old"
| "assignProp (Some v) old = Some v"

definition objectAssign :: "KycVerification \<Rightarrow> UpdateKycDto \<Rightarrow> KycVerification" where
  "objectAssign kyc dto =
     kyc\<lparr> address := assignProp (u_address dto) (address kyc),
          city := assignProp (u_city dto) (city kyc),
          state := assignProp (u_state dto) (state kyc),
          postalCode := assignProp (u_postalCode dto) (postalCode kyc),
          documentType := assignProp (u_documentType dto) (documentType kyc),
          documentNumber := assignProp (u_documentNumber dto) (documentNumber kyc),
          metadata := assignProp (u_metadata dto) (metadata kyc) \<rparr>"

definition updateKyc :: "timestamp \<Rightarrow> string \<Rightarrow> UpdateKycDto \<Rightarrow> world
    \<Rightarrow> error + (KycVerification \<times> world)" where
  "updateKyc now i dto w =
     (case getKycById i w of
        Inl e \<Rightarrow> Inl e
      | Inr kyc \<Rightarrow>
          if status kyc = APPROVED
          then Inl (BadRequestException ''Cannot update approved KYC verification'')
          else (let (savedKyc, rows') = save now (objectAssign kyc dto) (rows w)
                in Inr (savedKyc, w\<lparr>rows := rows'\<rparr>)))"

text \<open>
  \<open>data.riskAssessment?.riskLevel === 'high' || data.requiresReview\<close>
\<close>

definition requiresManualReview :: "WebhookData \<Rightarrow> bool" where
  "requiresManualReview d =
     ((case d_riskAssessment d of None \<Rightarrow> False | Some ra \<Rightarrow> riskLevel ra = ''high'')
      \<or> truthyOpt (d_requiresReview d))"

text \<open>
  The assignments \<open>handleWebhook\<close> makes to the loaded entity, in the order of the source:
  status, rejection reason, risk assessment, metadata, completion date, manual review.
\<close>

definition handleWebhookAssign :: "timestamp \<Rightarrow> KycStatus \<Rightarrow> WebhookData \<Rightarrow> KycVerification
    \<Rightarrow> KycVerification" where
  "handleWebhookAssign now st d kyc =
     (let k1 = kyc\<lparr>status := st\<rparr>;
          k2 = (if truthyStr (d_rejectionReason d)
                then k1\<lparr>rejectionReason := d_rejectionReason d\<rparr> else k1);
          k3 = (case d_riskAssessment d of
                  Some ra \<Rightarrow> k2\<lparr>riskAssessment := Some ra\<rparr>
                | None \<Rightarrow> k2);
          k4 = (case d_metadata d of
                  Some m \<Rightarrow> k3\<lparr>metadata := Some (spread (metadata k3) ++ m)\<rparr>
                | None \<Rightarrow> k3);
          k5 = (if st = APPROVED \<or> st = REJECTED
                then k4\<lparr>completedAt := Some now\<rparr> else k4)
      in if requiresManualReview d
         then k5\<lparr>status := REQUIRES_REVIEW, isManualReview := True\<rparr>
         else k5)"

text \<open>The events \<open>handleWebhook\<close> emits after the save.\<close>

definition handleWebhookEvents :: "KycStatus \<Rightarrow> KycStatus \<Rightarrow> string \<Rightarrow> KycVerification
    \<Rightarrow> event list" where
  "handleWebhookEvents oldStatus st vid updatedKyc =
     KycStatusChanged (kycId updatedKyc) (userId updatedKyc) oldStatus st vid #
     (if st = APPROVED
      then [KycApproved (kycId updatedKyc) (userId updatedKyc) (level updatedKyc)]
      else if st = REJECTED
      then [KycRejected (kycId updatedKyc) (userId updatedKyc) (rejectionReason updatedKyc)]
      else [])"

definition handleWebhook :: "timestamp \<Rightarrow> string \<Rightarrow> KycStatus \<Rightarrow> WebhookData \<Rightarrow> world
    \<Rightarrow> error + (KycVerification \<times> world)" where
  "handleWebhook now vid st d w =
     (case getKycByVerificationId vid w of
        Inl e \<Rightarrow> Inl e
      | Inr kyc \<Rightarrow>
          (let oldStatus = status kyc;
               (updatedKyc, rows') = save now (handleWebhookAssign now st d kyc) (rows w)
           in Inr (updatedKyc,
                   \<lparr> rows = rows',
                     emitted = emitted w @ handleWebhookEvents oldStatus st vid updatedKyc \<rparr>)))"

definition manualReview :: "timestamp \<Rightarrow> string \<Rightarrow> ManualReviewDto \<Rightarrow> world
    \<Rightarrow> error + (KycVerification \<times> world)" where
  "manualReview now i dto w =
     (case getKycById i w of
        Inl e \<Rightarrow> Inl e
      | Inr kyc \<Rightarrow>
          if \<not> isManualReview kyc
          then Inl (BadRequestException ''This verification does not require manual review'')
          else (let (updatedKyc, rows') =
                      save now (kyc\<lparr> status := m_status dto,
                                     reviewedBy := Some (m_reviewedBy dto),
                                     reviewNotes := Some (m_reviewNotes dto),
                                     completedAt := Some now,
                                     isManualReview := False \<rparr>) (rows w)
                in Inr (updatedKyc,
                        \<lparr> rows = rows',
                          emitted = emitted w @
                            [KycManuallyReviewed (kycId updatedKyc) (userId updatedKyc)
                               (m_status dto) (m_reviewedBy dto)] \<rparr>)))"

text \<open>The object \<open>retryKyc\<close> passes to \<open>createVerification\<close>.\<close>

definition retryRequest :: "KycVerification \<Rightarrow> KycVerificationData" where
  "retryRequest kyc =
     \<lparr> v_firstName = firstName kyc,
       v_lastName = lastName kyc,
       v_email = email kyc,
       v_phoneNumber = phoneNumber kyc,
       v_dateOfBirth = dateOfBirth kyc,
       v_country = country kyc,
       v_level = level kyc,
       v_userId = userId kyc,
       v_metadata = metadata kyc \<rparr>"

definition retryKyc :: "KycProviderService \<Rightarrow> timestamp \<Rightarrow> string \<Rightarrow> world
    \<Rightarrow> error + (KycVerification \<times> world)" where
  "retryKyc kycProviderService now i w =
     (case getKycById i w of
        Inl e \<Rightarrow> Inl e
      | Inr kyc \<Rightarrow>
          if status kyc \<noteq> REJECTED \<and> status kyc \<noteq> EXPIRED
          then Inl (BadRequestException ''Can only retry rejected or expired KYC'')
          else if attemptCount kyc \<ge> 3
          then Inl (BadRequestException ''Maximum retry attempts reached'')
          else
            (case createVerification kycProviderService (retryRequest kyc) of
               Inl e \<Rightarrow> Inl e
             | Inr providerResponse \<Rightarrow>
                 (let (savedKyc, rows') =
                        save now (kyc\<lparr> verificationId := p_verificationId providerResponse,
                                       verificationUrl := Some (p_verificationUrl providerResponse),
                                       status := PENDING,
                                       submittedAt := Some now,
                                       attemptCount := attemptCount kyc + 1,
                                       expiresAt := p_expiresAt providerResponse,
                                       completedAt := None,
                                       rejectionReason := None \<rparr>) (rows w)
                  in Inr (savedKyc, w\<lparr>rows := rows'\<rparr>))))"

text \<open>
  \<open>findOne\<close> with \<open>order: { completedAt: 'DESC' }\<close>: of the rows that satisfy the
  \<open>where\<close> clause, the one the descending order puts first. The columns are those of
  PostgreSQL (\<open>jsonb\<close>, \<open>uuid\<close>), whose descending order puts the rows without a
  completion date first; of two rows with the same date the earlier row of the table is
  taken.
\<close>

fun sortsBeforeDesc :: "timestamp option \<Rightarrow> timestamp option \<Rightarrow> bool" where
  "sortsBeforeDesc None None = False"
| "sortsBeforeDesc None (Some b) = True"
| "sortsBeforeDesc (Some a) None = False"
| "sortsBeforeDesc (Some a) (Some b) = (a > b)"

definition findOneCompletedAtDesc :: "(KycVerification \<Rightarrow> bool) \<Rightarrow> KycVerification list
    \<Rightarrow> KycVerification option" where
  "findOneCompletedAtDesc P rs =
     (case filter P rs of
        [] \<Rightarrow> None
      | r # rest \<Rightarrow>
          Some (foldl (\<lambda>best x. if sortsBeforeDesc (completedAt x) (completedAt best)
                                then x else best) r rest))"

text \<open>\<open>Array.prototype.indexOf\<close>\<close>

fun indexOf :: "'a list \<Rightarrow> 'a \<Rightarrow> int" where
  "indexOf [] x = - 1"
| "indexOf (y # ys) x =
     (if y = x then 0 else (let i = indexOf ys x in if i < 0 then - 1 else i + 1))"

definition levels :: "KycLevel list" where
  "levels = [BASIC, INTERMEDIATE, ADVANCED]"

definition isUserVerified :: "timestamp \<Rightarrow> string \<Rightarrow> KycLevel option \<Rightarrow> world \<Rightarrow> bool" where
  "isUserVerified now uid requiredLevel w =
     (case findOneCompletedAtDesc (\<lambda>r. userId r = uid \<and> status r = APPROVED) (rows w) of
        None \<Rightarrow> False
      | Some kyc \<Rightarrow>
          if isKycExpired now kyc then False
          else (case requiredLevel of
                  Some required \<Rightarrow> indexOf levels (level kyc) \<ge> indexOf levels required
                | None \<Rightarrow> True))"

definition getUserVerificationLevel :: "timestamp \<Rightarrow> string \<Rightarrow> world \<Rightarrow> KycLevel option" where
  "getUserVerificationLevel now uid w =
     (case findOneCompletedAtDesc (\<lambda>r. userId r = uid \<and> status r = APPROVED) (rows w) of
        None \<Rightarrow> None
      | Some kyc \<Rightarrow> if \<not> isKycExpired now kyc then Some (level kyc) else None)"

section \<open>KycProviderService.verifyWebhookSignature\<close>

text \<open>
  \<open>crypto.createHmac('sha256', key).update(msg).digest('hex')\<close> is the argument
  \<open>hmac\<close>: the statements below hold for every function in its place. A string is
  the list of its bytes, which is what \<open>Buffer.from\<close> makes of it. The secret is
  \<open>None\<close> when the configuration has no \<open>KYC_PROVIDER_WEBHOOK_SECRET\<close>, and the
  signature is \<open>None\<close> when the request has no signature header.
\<close>

datatype js_error = TypeError | RangeError

text \<open>\<open>crypto.timingSafeEqual\<close> throws when the two buffers differ in length.\<close>

definition timingSafeEqual :: "string \<Rightarrow> string \<Rightarrow> js_error + bool" where
  "timingSafeEqual a b = (if length a \<noteq> length b then Inl RangeError else Inr (a = b))"

text \<open>\<open>timestamp ? `${timestamp}.${payload}` : payload\<close>\<close>

fun signedMessage :: "string option \<Rightarrow> string \<Rightarrow> string" where
  "signedMessage None payload = payload"
| "signedMessage (Some t) payload = (if t \<noteq> [] then t @ ''.'' @ payload else payload)"

text \<open>The body of the \<open>try\<close> block.\<close>

definition verifyWebhookSignatureTry :: "(string \<Rightarrow> string \<Rightarrow> string) \<Rightarrow> string option \<Rightarrow> string
    \<Rightarrow> string option \<Rightarrow> string option \<Rightarrow> js_error + bool" where
  "verifyWebhookSignatureTry hmac webhookSecret payload signature timestamp =
     (case webhookSecret of
        None \<Rightarrow> Inl TypeError
      | Some key \<Rightarrow>
          (let expectedSignature = hmac key (signedMessage timestamp payload)
           in case signature of
                None \<Rightarrow> Inl TypeError
              | Some sg \<Rightarrow> timingSafeEqual sg expectedSignature))"

text \<open>The \<open>catch\<close> block logs the error and returns \<open>false\<close>.\<close>

definition verifyWebhookSignature :: "(string \<Rightarrow> string \<Rightarrow> string) \<Rightarrow> string option \<Rightarrow> string
    \<Rightarrow> string option \<Rightarrow> string option \<Rightarrow> js_error + bool" where
  "verifyWebhookSignature hmac webhookSecret payload signature timestamp =
     (case verifyWebhookSignatureTry hmac webhookSecret payload signature timestamp of
        Inl e \<Rightarrow> Inr False
      | Inr b \<Rightarrow> Inr b)"

section \<open>Reachable states\<close>

text \<open>
  The states of the table and the emitter that the operations of the service produce
  from the empty table, whatever the clock, the provider and the callers supply. The
  primary key the database generates for a new row is one no row has yet.
\<close>

inductive reachable :: "world \<Rightarrow> bool" where
  reach_empty: "reachable \<lparr>rows = [], emitted = []\<rparr>"
| reach_initiate:
    "reachable w \<Longrightarrow> newId \<notin> kycId ` set (rows w)
     \<Longrightarrow> initiateKyc svc now newId idto w = Inr (k, w') \<Longrightarrow> reachable w'"
| reach_webhook:
    "reachable w \<Longrightarrow> handleWebhook now vid st d w = Inr (k, w') \<Longrightarrow> reachable w'"
| reach_review:
    "reachable w \<Longrightarrow> manualReview now i mdto w = Inr (k, w') \<Longrightarrow> reachable w'"
| reach_retry:
    "reachable w \<Longrightarrow> retryKyc svc now i w = Inr (k, w') \<Longrightarrow> reachable w'"
| reach_update:
    "reachable w \<Longrightarrow> updateKyc now i udto w = Inr (k, w') \<Longrightarrow> reachable w'"

section \<open>Example inputs\<close>

text \<open>
  The scenario of the specification: user \<open>U1\<close> initiates a Basic verification, and the
  provider answers with the session \<open>v1\<close>.
\<close>

definition provider1 :: KycProviderService where
  "provider1 =
     \<lparr> createVerification = (\<lambda>data. Inr \<lparr> p_verificationId = ''v1'',
                                            p_verificationUrl = ''https://p/v1'',
                                            p_status = ''pending'',
                                            p_expiresAt = None \<rparr>),
       getProviderName = ''onfido'' \<rparr>"

definition dtoU1 :: InitiateKycDto where
  "dtoU1 =
     \<lparr> i_userId = ''U1'', i_level = Some BASIC, i_firstName = ''John'', i_lastName = ''Doe'',
       i_email = ''john@example.com'', i_phoneNumber = None, i_dateOfBirth = None,
       i_country = None, i_metadata = None \<rparr>"

definition world0 :: world where
  "world0 = \<lparr>rows = [], emitted = []\<rparr>"

definition caseU1 :: KycVerification where
  "caseU1 =
     \<lparr> kycId = ''kyc-1'', userId = ''U1'', verificationId = ''v1'', status = PENDING,
       level = BASIC, verificationUrl = Some ''https://p/v1'', firstName = Some ''John'',
       lastName = Some ''Doe'', email = Some ''john@example.com'', phoneNumber = None,
       dateOfBirth = None, nationality = None, documentType = None, documentNumber = None,
       address = None, city = None, state = None, postalCode = None, country = None,
       metadata = None, rejectionReason = None, riskAssessment = None,
       submittedAt = Some 1000, completedAt = None, expiresAt = None,
       provider = Some ''onfido'', attemptCount = 1, isManualReview = False,
       reviewedBy = None, reviewNotes = None, createdAt = 1000, updatedAt = 1000 \<rparr>"

definition world1 :: world where
  "world1 = \<lparr>rows = [caseU1], emitted = [KycInitiated ''kyc-1'' ''U1'' ''v1'']\<rparr>"

text \<open>Webhook payloads: an empty one, and the high-risk one of the test suite.\<close>

definition noData :: WebhookData where
  "noData = \<lparr> d_rejectionReason = None, d_riskAssessment = None, d_metadata = None,
              d_requiresReview = None \<rparr>"

definition highRiskData :: WebhookData where
  "highRiskData =
     \<lparr> d_rejectionReason = None,
       d_riskAssessment =
         Some \<lparr>riskLevel = ''high'', score = 85, flags = [''suspicious_document'']\<rparr>,
       d_metadata = None, d_requiresReview = None \<rparr>"

text \<open>The case of \<open>U1\<close> and the state once the provider has approved it at time \<open>t\<close>.\<close>

definition approvedAt :: "timestamp \<Rightarrow> KycVerification" where
  "approvedAt t = caseU1\<lparr>status := APPROVED, completedAt := Some t, updatedAt := t\<rparr>"

definition approvedWorld :: "timestamp \<Rightarrow> world" where
  "approvedWorld t =
     \<lparr> rows = [approvedAt t],
       emitted = [KycInitiated ''kyc-1'' ''U1'' ''v1'',
                  KycStatusChanged ''kyc-1'' ''U1'' PENDING APPROVED ''v1'',
                  KycApproved ''kyc-1'' ''U1'' BASIC] \<rparr>"

text \<open>The state after the same approval has been delivered again, at time \<open>t\<close>.\<close>

definition redeliveredWorld :: "timestamp \<Rightarrow> world" where
  "redeliveredWorld t =
     \<lparr> rows = [approvedAt t],
       emitted = [KycInitiated ''kyc-1'' ''U1'' ''v1'',
                  KycStatusChanged ''kyc-1'' ''U1'' PENDING APPROVED ''v1'',
                  KycApproved ''kyc-1'' ''U1'' BASIC,
                  KycStatusChanged ''kyc-1'' ''U1'' APPROVED APPROVED ''v1'',
                  KycApproved ''kyc-1'' ''U1'' BASIC] \<rparr>"

text \<open>A second session of the provider, \<open>v2\<close>, that expires at time 9000.\<close>

definition provider2 :: KycProviderService where
  "provider2 =
     \<lparr> createVerification = (\<lambda>data. Inr \<lparr> p_verificationId = ''v2'',
                                            p_verificationUrl = ''https://p/v2'',
                                            p_status = ''pending'',
                                            p_expiresAt = Some 9000 \<rparr>),
       getProviderName = ''onfido'' \<rparr>"

text \<open>A second case of \<open>U1\<close>, initiated at time 1500 while the first is still Pending.\<close>

definition caseU1Second :: KycVerification where
  "caseU1Second =
     caseU1\<lparr> kycId := ''kyc-2'', verificationId := ''v2'',
             verificationUrl := Some ''https://p/v2'', submittedAt := Some 1500,
             expiresAt := Some 9000, createdAt := 1500, updatedAt := 1500 \<rparr>"

definition world2 :: world where
  "world2 = \<lparr> rows = [caseU1, caseU1Second],
              emitted = [KycInitiated ''kyc-1'' ''U1'' ''v1'',
                         KycInitiated ''kyc-2'' ''U1'' ''v2''] \<rparr>"

text \<open>\<open>U1\<close>'s case after a high-risk webhook that reported it as Approved at time 2000.\<close>

definition escalatedCase :: KycVerification where
  "escalatedCase =
     caseU1\<lparr> status := REQUIRES_REVIEW,
             riskAssessment :=
               Some \<lparr>riskLevel = ''high'', score = 85, flags = [''suspicious_document'']\<rparr>,
             completedAt := Some 2000, isManualReview := True, updatedAt := 2000 \<rparr>"

definition escalatedWorld :: world where
  "escalatedWorld =
     \<lparr> rows = [escalatedCase],
       emitted = [KycInitiated ''kyc-1'' ''U1'' ''v1'',
                  KycStatusChanged ''kyc-1'' ''U1'' PENDING APPROVED ''v1'',
                  KycApproved ''kyc-1'' ''U1'' BASIC] \<rparr>"



text \<open>
  A stand-in for the keyed hash, for evaluating the verifier: the key followed by the
  message.
\<close>

definition exampleHmac :: "string \<Rightarrow> string \<Rightarrow> string" where
  "exampleHmac key msg = key @ msg"

text \<open>
  \<open>U1\<close>'s case with the metadata \<open>{a: 1}\<close>, a table that holds it, and the metadata
  \<open>{b: 2}\<close> as the patch of an update and as the payload of a webhook.
\<close>

definition caseWithMetadata :: KycVerification where
  "caseWithMetadata = caseU1\<lparr>metadata := Some [''a'' \<mapsto> JNum 1]\<rparr>"

definition metadataWorld :: world where
  "metadataWorld = \<lparr>rows = [caseWithMetadata], emitted = []\<rparr>"

definition patchB :: UpdateKycDto where
  "patchB =
     \<lparr> u_address = None, u_city = None, u_state = None, u_postalCode = None,
       u_documentType = None, u_documentNumber = None,
       u_metadata = Some [''b'' \<mapsto> JNum 2] \<rparr>"

definition dataB :: WebhookData where
  "dataB = \<lparr> d_rejectionReason = None, d_riskAssessment = None,
             d_metadata = Some [''b'' \<mapsto> JNum 2], d_requiresReview = None \<rparr>"

text \<open>The case and the table after the update with the patch at time 2000.\<close>

definition patchedCase :: KycVerification where
  "patchedCase = caseWithMetadata\<lparr>metadata := Some [''b'' \<mapsto> JNum 2], updatedAt := 2000\<rparr>"

definition patchedWorld :: world where
  "patchedWorld = \<lparr>rows = [patchedCase], emitted = []\<rparr>"




definition reviewDto :: ManualReviewDto where
  "reviewDto = \<lparr> m_status = REJECTED, m_reviewNotes = ''forged document'',
                 m_reviewedBy = ''admin-7'' \<rparr>"

text \<open>The escalated case after the review that rejects it at time 5000.\<close>

definition reviewedCase :: KycVerification where
  "reviewedCase =
     escalatedCase\<lparr> status := REJECTED, reviewedBy := Some ''admin-7'',
                    reviewNotes := Some ''forged document'', completedAt := Some 5000,
                    isManualReview := False, updatedAt := 5000 \<rparr>"

definition reviewedWorld :: world where
  "reviewedWorld =
     \<lparr> rows = [reviewedCase],
       emitted = [KycInitiated ''kyc-1'' ''U1'' ''v1'',
                  KycStatusChanged ''kyc-1'' ''U1'' PENDING APPROVED ''v1'',
                  KycApproved ''kyc-1'' ''U1'' BASIC,
                  KycManuallyReviewed ''kyc-1'' ''U1'' REJECTED ''admin-7''] \<rparr>"

text \<open>
  Three attempts of \<open>U1\<close>: the provider rejects each attempt, and a retry opens the
  next one, with the sessions \<open>v2\<close> and \<open>v3\<close>.
\<close>

definition provider3 :: KycProviderService where
  "provider3 =
     \<lparr> createVerification = (\<lambda>data. Inr \<lparr> p_verificationId = ''v3'',
                                            p_verificationUrl = ''https://p/v3'',
                                            p_status = ''pending'',
                                            p_expiresAt = Some 9000 \<rparr>),
       getProviderName = ''onfido'' \<rparr>"

definition rejectData :: WebhookData where
  "rejectData = \<lparr> d_rejectionReason = Some ''document unreadable'', d_riskAssessment = None,
                  d_metadata = None, d_requiresReview = None \<rparr>"

definition attemptPending :: "int \<Rightarrow> string \<Rightarrow> timestamp \<Rightarrow> KycVerification" where
  "attemptPending n vid t =
     caseU1\<lparr> verificationId := vid, verificationUrl := Some (''https://p/'' @ vid),
             submittedAt := Some t, attemptCount := n, expiresAt := Some 9000,
             updatedAt := t \<rparr>"

definition attemptRejected :: "KycVerification \<Rightarrow> timestamp \<Rightarrow> KycVerification" where
  "attemptRejected c t =
     c\<lparr> status := REJECTED, rejectionReason := Some ''document unreadable'',
        completedAt := Some t, updatedAt := t \<rparr>"

definition rejectionEvents :: "string \<Rightarrow> event list" where
  "rejectionEvents vid =
     [KycStatusChanged ''kyc-1'' ''U1'' PENDING REJECTED vid,
      KycRejected ''kyc-1'' ''U1'' (Some ''document unreadable'')]"

definition firstRejectedWorld :: world where
  "firstRejectedWorld =
     \<lparr> rows = [attemptRejected caseU1 2000],
       emitted = KycInitiated ''kyc-1'' ''U1'' ''v1'' # rejectionEvents ''v1'' \<rparr>"

definition secondPendingWorld :: world where
  "secondPendingWorld =
     \<lparr> rows = [attemptPending 2 ''v2'' 3000],
       emitted = KycInitiated ''kyc-1'' ''U1'' ''v1'' # rejectionEvents ''v1'' \<rparr>"

definition secondRejectedWorld :: world where
  "secondRejectedWorld =
     \<lparr> rows = [attemptRejected (attemptPending 2 ''v2'' 3000) 4000],
       emitted = KycInitiated ''kyc-1'' ''U1'' ''v1'' # rejectionEvents ''v1''
                 @ rejectionEvents ''v2'' \<rparr>"

definition thirdPendingWorld :: world where
  "thirdPendingWorld =
     \<lparr> rows = [attemptPending 3 ''v3'' 5000],
       emitted = KycInitiated ''kyc-1'' ''U1'' ''v1'' # rejectionEvents ''v1''
                 @ rejectionEvents ''v2'' \<rparr>"

definition thirdRejectedWorld :: world where
  "thirdRejectedWorld =
     \<lparr> rows = [attemptRejected (attemptPending 3 ''v3'' 5000) 6000],
       emitted = KycInitiated ''kyc-1'' ''U1'' ''v1'' # rejectionEvents ''v1''
                 @ rejectionEvents ''v2'' @ rejectionEvents ''v3'' \<rparr>"

text \<open>
  A verification of \<open>U1\<close> that expires at time 2500: initiated at time 1000 and approved
  at time 2000. After its expiry \<open>U1\<close> initiates again at time 3000, with the session
  \<open>v2\<close> that expires at time 9000, and is approved at time 4000.
\<close>

definition providerExpiring :: KycProviderService where
  "providerExpiring =
     \<lparr> createVerification = (\<lambda>data. Inr \<lparr> p_verificationId = ''v1'',
                                            p_verificationUrl = ''https://p/v1'',
                                            p_status = ''pending'',
                                            p_expiresAt = Some 2500 \<rparr>),
       getProviderName = ''onfido'' \<rparr>"

definition expiringCase :: KycVerification where
  "expiringCase = caseU1\<lparr>expiresAt := Some 2500\<rparr>"

definition expiredApprovedCase :: KycVerification where
  "expiredApprovedCase =
     expiringCase\<lparr>status := APPROVED, completedAt := Some 2000, updatedAt := 2000\<rparr>"

definition renewedCase :: KycVerification where
  "renewedCase =
     caseU1\<lparr> kycId := ''kyc-2'', verificationId := ''v2'',
             verificationUrl := Some ''https://p/v2'', submittedAt := Some 3000,
             expiresAt := Some 9000, createdAt := 3000, updatedAt := 3000 \<rparr>"

definition renewedApprovedCase :: KycVerification where
  "renewedApprovedCase =
     renewedCase\<lparr>status := APPROVED, completedAt := Some 4000, updatedAt := 4000\<rparr>"

definition expiringWorld :: world where
  "expiringWorld = \<lparr>rows = [expiringCase], emitted = [KycInitiated ''kyc-1'' ''U1'' ''v1'']\<rparr>"

definition expiredApprovedWorld :: world where
  "expiredApprovedWorld =
     \<lparr> rows = [expiredApprovedCase],
       emitted = [KycInitiated ''kyc-1'' ''U1'' ''v1'',
                  KycStatusChanged ''kyc-1'' ''U1'' PENDING APPROVED ''v1'',
                  KycApproved ''kyc-1'' ''U1'' BASIC] \<rparr>"

definition renewedWorld :: world where
  "renewedWorld =
     \<lparr> rows = [expiredApprovedCase, renewedCase],
       emitted = [KycInitiated ''kyc-1'' ''U1'' ''v1'',
                  KycStatusChanged ''kyc-1'' ''U1'' PENDING APPROVED ''v1'',
                  KycApproved ''kyc-1'' ''U1'' BASIC,
                  KycInitiated ''kyc-2'' ''U1'' ''v2''] \<rparr>"

definition twoApprovedWorld :: world where
  "twoApprovedWorld =
     \<lparr> rows = [expiredApprovedCase, renewedApprovedCase],
       emitted = [KycInitiated ''kyc-1'' ''U1'' ''v1'',
                  KycStatusChanged ''kyc-1'' ''U1'' PENDING APPROVED ''v1'',
                  KycApproved ''kyc-1'' ''U1'' BASIC,
                  KycInitiated ''kyc-2'' ''U1'' ''v2'',
                  KycStatusChanged ''kyc-2'' ''U1'' PENDING APPROVED ''v2'',
                  KycApproved ''kyc-2'' ''U1'' BASIC] \<rparr>"

section \<open>Auxiliary facts\<close>

lemma find_Some_prop: "find P rs = Some r \<Longrightarrow> P r \<and> r \<in> set rs"
  by (induction rs) (auto split: if_splits)

lemma find_after_replace:
  "find (\<lambda>r. verificationId r = vid) rs = Some r0 \<Longrightarrow> verificationId k = vid
   \<Longrightarrow> kycId k = kycId r0
   \<Longrightarrow> find (\<lambda>r. verificationId r = vid) (map (\<lambda>r. if kycId r = kycId k then k else r) rs)
       = Some k"
  by (induction rs) (auto split: if_splits)

lemma handleWebhookAssign_ids:
  "kycId (handleWebhookAssign now st d kyc) = kycId kyc"
  "verificationId (handleWebhookAssign now st d kyc) = verificationId kyc"
  "userId (handleWebhookAssign now st d kyc) = userId kyc"
  by (simp_all add: handleWebhookAssign_def Let_def split: option.splits)

text \<open>What a successful \<open>handleWebhook\<close> returns, written out.\<close>

lemma handleWebhook_Inr:
  "handleWebhook now vid st d w = Inr (k, w') \<longleftrightarrow>
   (\<exists>kyc. find (\<lambda>r. verificationId r = vid) (rows w) = Some kyc \<and>
      k = (handleWebhookAssign now st d kyc)\<lparr>updatedAt := now\<rparr> \<and>
      w' = \<lparr>rows = map (\<lambda>r. if kycId r = kycId kyc then k else r) (rows w),
            emitted = emitted w @ handleWebhookEvents (status kyc) st vid k\<rparr>)"
  by (auto simp: handleWebhook_def getKycByVerificationId_def findOne_def save_def Let_def
        handleWebhookAssign_ids split: option.splits)

text \<open>The record a webhook returns is the one a later lookup by verification id finds.\<close>

lemma handleWebhook_stored:
  assumes "handleWebhook now vid st d w = Inr (k, w')"
  shows "getKycByVerificationId vid w' = Inr k"
proof -
  from assms obtain kyc where f: "find (\<lambda>r. verificationId r = vid) (rows w) = Some kyc"
    and k: "k = (handleWebhookAssign now st d kyc)\<lparr>updatedAt := now\<rparr>"
    and w': "rows w' = map (\<lambda>r. if kycId r = kycId kyc then k else r) (rows w)"
    by (auto simp: handleWebhook_Inr)
  have "verificationId kyc = vid" using find_Some_prop[OF f] by simp
  then have "verificationId k = vid" "kycId k = kycId kyc"
    by (simp_all add: k handleWebhookAssign_ids)
  with find_after_replace[OF f, of k] w' show ?thesis
    by (simp add: getKycByVerificationId_def findOne_def)
qed

lemma map_add_twice: "(a ++ b) ++ b = a ++ (b::'a \<rightharpoonup> 'b)"
  by (rule ext) (simp add: map_add_def split: option.splits)

lemma handleWebhookAssign_twice:
  "handleWebhookAssign now2 st d ((handleWebhookAssign now1 st d kyc)\<lparr>updatedAt := u\<rparr>) =
   (handleWebhookAssign now1 st d kyc)
     \<lparr>completedAt := (if st = APPROVED \<or> st = REJECTED then Some now2
                      else completedAt (handleWebhookAssign now1 st d kyc)),
      updatedAt := u\<rparr>"
  by (cases "d_rejectionReason d"; cases "d_riskAssessment d"; cases "d_metadata d")
     (simp_all add: handleWebhookAssign_def Let_def map_add_twice)

text \<open>The example scenario, evaluated.\<close>

lemma initiate_world0: "initiateKyc provider1 1000 ''kyc-1'' dtoU1 world0 = Inr (caseU1, world1)"
  by (simp add: initiateKyc_def initiateKycCreate_def initiateRequest_def findOne_def world0_def
      provider1_def dtoU1_def createEntity_def saveNew_def caseU1_def world1_def Let_def)

lemma approve_world1:
  "handleWebhook t ''v1'' APPROVED noData world1 = Inr (approvedAt t, approvedWorld t)"
  by (simp add: handleWebhook_def getKycByVerificationId_def findOne_def world1_def
      handleWebhookAssign_def requiresManualReview_def noData_def save_def approvedAt_def
      approvedWorld_def handleWebhookEvents_def caseU1_def Let_def)

lemma find_kycId_after_replace:
  "find (\<lambda>r. kycId r = i) rs = Some r0 \<Longrightarrow> kycId k = i
   \<Longrightarrow> find (\<lambda>r. kycId r = i) (map (\<lambda>r. if kycId r = kycId k then k else r) rs) = Some k"
  by (induction rs) (auto split: if_splits)

lemma getKycById_Inr:
  "getKycById i w = Inr kyc \<longleftrightarrow> find (\<lambda>r. kycId r = i) (rows w) = Some kyc"
  by (simp add: getKycById_def findOne_def split: option.splits)

lemma getKycById_props: "getKycById i w = Inr kyc \<Longrightarrow> kycId kyc = i \<and> kyc \<in> set (rows w)"
  using find_Some_prop[of "\<lambda>r. kycId r = i" "rows w" kyc] by (simp add: getKycById_Inr)

text \<open>After the save of a loaded entity, a lookup by its id finds the saved entity.\<close>

lemma getKycById_after_save:
  assumes "getKycById i w = Inr kyc" and "kycId k = kycId kyc"
  shows "getKycById i (w\<lparr>rows := snd (save now k (rows w))\<rparr>) = Inr (k\<lparr>updatedAt := now\<rparr>)"
proof -
  have f: "find (\<lambda>r. kycId r = i) (rows w) = Some kyc" using assms(1) by (simp add: getKycById_Inr)
  have "kycId (k\<lparr>updatedAt := now\<rparr>) = i" using assms getKycById_props by simp
  from find_kycId_after_replace[OF f this] show ?thesis
    by (simp add: getKycById_Inr save_def Let_def)
qed

section \<open>What each successful operation does to the table\<close>

lemma initiateKyc_Inr:
  assumes "initiateKyc svc now newId dto w = Inr (k, w')"
  shows "\<exists>resp. k = (createEntity now (getProviderName svc) dto resp)
                      \<lparr>kycId := newId, createdAt := now, updatedAt := now\<rparr>
              \<and> rows w' = rows w @ [k]"
proof -
  from assms have "initiateKycCreate svc now newId dto w = Inr (k, w')"
    by (auto simp: initiateKyc_def split: option.splits if_splits)
  then show ?thesis
    by (auto simp: initiateKycCreate_def saveNew_def Let_def split: sum.splits)
qed

lemma manualReview_Inr:
  assumes "manualReview now i dto w = Inr (k, w')"
  shows "\<exists>kyc. getKycById i w = Inr kyc \<and> isManualReview kyc
           \<and> k = kyc\<lparr> status := m_status dto, reviewedBy := Some (m_reviewedBy dto),
                       reviewNotes := Some (m_reviewNotes dto), completedAt := Some now,
                       isManualReview := False, updatedAt := now \<rparr>
           \<and> rows w' = map (\<lambda>r. if kycId r = kycId kyc then k else r) (rows w)"
  using assms
  by (auto simp: manualReview_def save_def Let_def split: sum.splits if_splits)

lemma retryKyc_Inr:
  assumes "retryKyc svc now i w = Inr (k, w')"
  shows "\<exists>kyc resp. getKycById i w = Inr kyc
           \<and> (status kyc = REJECTED \<or> status kyc = EXPIRED) \<and> attemptCount kyc < 3
           \<and> createVerification svc (retryRequest kyc) = Inr resp
           \<and> k = kyc\<lparr> verificationId := p_verificationId resp,
                       verificationUrl := Some (p_verificationUrl resp),
                       status := PENDING, submittedAt := Some now,
                       attemptCount := attemptCount kyc + 1,
                       expiresAt := p_expiresAt resp, completedAt := None,
                       rejectionReason := None, updatedAt := now \<rparr>
           \<and> rows w' = map (\<lambda>r. if kycId r = kycId kyc then k else r) (rows w)"
  using assms
  by (auto simp: retryKyc_def save_def Let_def split: sum.splits if_splits)

lemma updateKyc_success:
  assumes "updateKyc now i dto w = Inr (k, w')"
  shows "\<exists>kyc. getKycById i w = Inr kyc \<and> status kyc \<noteq> APPROVED
           \<and> k = (objectAssign kyc dto)\<lparr>updatedAt := now\<rparr>
           \<and> rows w' = map (\<lambda>r. if kycId r = kycId kyc then k else r) (rows w)"
  using assms
  by (auto simp: updateKyc_def save_def Let_def objectAssign_def split: sum.splits if_splits)

lemma replaced_rows:
  "r \<in> set (map (\<lambda>r. if kycId r = i then k else r) rs) \<Longrightarrow> r = k \<or> r \<in> set rs"
  by auto

text \<open>
  A property of rows that every operation establishes for the row it writes holds for
  every row of every reachable table.
\<close>

lemma reachable_rows:
  assumes "reachable w"
    and created: "\<And>now pn dto resp newId.
            P ((createEntity now pn dto resp)\<lparr>kycId := newId, createdAt := now, updatedAt := now\<rparr>)"
    and webhook: "\<And>now st d kyc. P kyc \<Longrightarrow> P ((handleWebhookAssign now st d kyc)\<lparr>updatedAt := now\<rparr>)"
    and review: "\<And>now (dto :: ManualReviewDto) kyc. P kyc \<Longrightarrow> isManualReview kyc \<Longrightarrow>
            P (kyc\<lparr> status := m_status dto, reviewedBy := Some (m_reviewedBy dto),
                       reviewNotes := Some (m_reviewNotes dto), completedAt := Some now,
                       isManualReview := False, updatedAt := now \<rparr>)"
    and retry: "\<And>now (resp :: KycProviderResponse) kyc. P kyc \<Longrightarrow> status kyc = REJECTED \<or> status kyc = EXPIRED \<Longrightarrow>
            attemptCount kyc < 3 \<Longrightarrow>
            P (kyc\<lparr> verificationId := p_verificationId resp,
                       verificationUrl := Some (p_verificationUrl resp),
                       status := PENDING, submittedAt := Some now,
                       attemptCount := attemptCount kyc + 1,
                       expiresAt := p_expiresAt resp, completedAt := None,
                       rejectionReason := None, updatedAt := now \<rparr>)"
    and update: "\<And>now dto kyc. P kyc \<Longrightarrow> status kyc \<noteq> APPROVED \<Longrightarrow>
            P ((objectAssign kyc dto)\<lparr>updatedAt := now\<rparr>)"
  shows "\<forall>r\<in>set (rows w). P r"
  using assms(1)
proof (induction rule: reachable.induct)
  case reach_empty
  show ?case by simp
next
  case (reach_initiate w newId svc now idto k w')
  from initiateKyc_Inr[OF reach_initiate.hyps(3)] created reach_initiate.IH
  show ?case by auto
next
  case (reach_webhook w now vid st d k w')
  from reach_webhook.hyps(2) obtain kyc where
      f: "find (\<lambda>r. verificationId r = vid) (rows w) = Some kyc"
      and k: "k = (handleWebhookAssign now st d kyc)\<lparr>updatedAt := now\<rparr>"
      and w': "rows w' = map (\<lambda>r. if kycId r = kycId kyc then k else r) (rows w)"
    by (auto simp: handleWebhook_Inr)
  have "P kyc" using find_Some_prop[OF f] reach_webhook.IH by simp
  then have "P k" unfolding k by (rule webhook)
  then show ?case using reach_webhook.IH unfolding w' by auto
next
  case (reach_review w now i mdto k w')
  from manualReview_Inr[OF reach_review.hyps(2)] obtain kyc where
      g: "getKycById i w = Inr kyc" and m: "isManualReview kyc"
      and k: "k = kyc\<lparr> status := m_status mdto, reviewedBy := Some (m_reviewedBy mdto),
                       reviewNotes := Some (m_reviewNotes mdto), completedAt := Some now,
                       isManualReview := False, updatedAt := now \<rparr>"
      and w': "rows w' = map (\<lambda>r. if kycId r = kycId kyc then k else r) (rows w)"
    by blast
  have pk: "P kyc" using getKycById_props[OF g] reach_review.IH by simp
  have "P k" unfolding k by (rule review[OF pk m])
  then show ?case using reach_review.IH unfolding w' by auto
next
  case (reach_retry w svc now i k w')
  from retryKyc_Inr[OF reach_retry.hyps(2)] obtain kyc and resp :: KycProviderResponse where
      g: "getKycById i w = Inr kyc"
      and s: "status kyc = REJECTED \<or> status kyc = EXPIRED" and a: "attemptCount kyc < 3"
      and k: "k = kyc\<lparr> verificationId := p_verificationId resp,
                       verificationUrl := Some (p_verificationUrl resp),
                       status := PENDING, submittedAt := Some now,
                       attemptCount := attemptCount kyc + 1,
                       expiresAt := p_expiresAt resp, completedAt := None,
                       rejectionReason := None, updatedAt := now \<rparr>"
      and w': "rows w' = map (\<lambda>r. if kycId r = kycId kyc then k else r) (rows w)"
    by blast
  have pk: "P kyc" using getKycById_props[OF g] reach_retry.IH by simp
  have "P k" unfolding k by (rule retry[OF pk s a])
  then show ?case using reach_retry.IH unfolding w' by auto
next
  case (reach_update w now i udto k w')
  from updateKyc_success[OF reach_update.hyps(2)] obtain kyc where
      g: "getKycById i w = Inr kyc" and s: "status kyc \<noteq> APPROVED"
      and k: "k = (objectAssign kyc udto)\<lparr>updatedAt := now\<rparr>"
      and w': "rows w' = map (\<lambda>r. if kycId r = kycId kyc then k else r) (rows w)"
    by blast
  have pk: "P kyc" using getKycById_props[OF g] reach_update.IH by simp
  have "P k" unfolding k by (rule update[OF pk s])
  then show ?case using reach_update.IH unfolding w' by auto
qed

lemma updateKyc_Inr:
  assumes "getKycById i w = Inr kyc" and "status kyc \<noteq> APPROVED"
  shows "updateKyc now i dto w =
           Inr ((objectAssign kyc dto)\<lparr>updatedAt := now\<rparr>,
                w\<lparr>rows := snd (save now (objectAssign kyc dto) (rows w))\<rparr>)"
  using assms by (simp add: updateKyc_def save_def Let_def)

section \<open>C1: re-delivery of a webhook\<close>

text \<open>
  C1, as the code has it. Applying the same \<open>(verificationId, status, data)\<close> a second
  time succeeds and yields the record of the first application except for two dates:
  \<open>updatedAt\<close>, and \<open>completedAt\<close>, which every application with the status Approved
  or Rejected sets to its own time (for any other status it is left as it was). The
  record returned is the one stored.
\<close>

theorem handleWebhook_twice:
  assumes "handleWebhook now1 vid st d w = Inr (k1, w1)"
  shows "\<exists>w2. handleWebhook now2 vid st d w1 =
            Inr (k1\<lparr>completedAt := (if st = APPROVED \<or> st = REJECTED then Some now2
                                     else completedAt k1),
                    updatedAt := now2\<rparr>, w2)
          \<and> getKycByVerificationId vid w2 =
            Inr (k1\<lparr>completedAt := (if st = APPROVED \<or> st = REJECTED then Some now2
                                     else completedAt k1),
                    updatedAt := now2\<rparr>)"
proof -
  from assms obtain kyc where k1: "k1 = (handleWebhookAssign now1 st d kyc)\<lparr>updatedAt := now1\<rparr>"
    by (auto simp: handleWebhook_Inr)
  have stored: "find (\<lambda>r. verificationId r = vid) (rows w1) = Some k1"
    using handleWebhook_stored[OF assms]
    by (simp add: getKycByVerificationId_def findOne_def split: option.splits)
  define k2 where "k2 = (handleWebhookAssign now2 st d k1)\<lparr>updatedAt := now2\<rparr>"
  define w2 where "w2 = \<lparr>rows = map (\<lambda>r. if kycId r = kycId k1 then k2 else r) (rows w1),
            emitted = emitted w1 @ handleWebhookEvents (status k1) st vid k2\<rparr>"
  have run: "handleWebhook now2 vid st d w1 = Inr (k2, w2)"
    unfolding handleWebhook_Inr using stored by (simp add: k2_def w2_def)
  have k2: "k2 = k1\<lparr>completedAt := (if st = APPROVED \<or> st = REJECTED then Some now2
                                     else completedAt k1), updatedAt := now2\<rparr>"
    unfolding k2_def k1 by (simp add: handleWebhookAssign_twice)
  from run handleWebhook_stored[OF run] show ?thesis unfolding k2 by blast
qed

text \<open>
  The theorem at the approval of \<open>U1\<close>'s case, delivered at time 2000 and again at
  time 3000.
\<close>

theorem handleWebhook_twice_witness:
  "handleWebhook 2000 ''v1'' APPROVED noData world1 = Inr (approvedAt 2000, approvedWorld 2000)
   \<and> (\<exists>w2. handleWebhook 3000 ''v1'' APPROVED noData (approvedWorld 2000)
              = Inr (approvedAt 3000, w2)
           \<and> getKycByVerificationId ''v1'' w2 = Inr (approvedAt 3000))"
  using handleWebhook_twice[OF approve_world1[of 2000], of 3000] approve_world1[of 2000]
  by (simp add: approvedAt_def)

text \<open>
  C1 as stated fails: the second delivery of the same approval moves \<open>completedAt\<close>
  from 2000 to 3000, so the two stored records differ in more than \<open>updatedAt\<close>.
\<close>

theorem handleWebhook_redelivery_counterexample:
  "handleWebhook 2000 ''v1'' APPROVED noData world1 = Inr (approvedAt 2000, approvedWorld 2000)
   \<and> getKycByVerificationId ''v1'' (approvedWorld 2000) = Inr (approvedAt 2000)
   \<and> handleWebhook 3000 ''v1'' APPROVED noData (approvedWorld 2000)
       = Inr (approvedAt 3000, redeliveredWorld 3000)
   \<and> getKycByVerificationId ''v1'' (redeliveredWorld 3000) = Inr (approvedAt 3000)
   \<and> completedAt (approvedAt 2000) = Some 2000
   \<and> completedAt (approvedAt 3000) = Some 3000
   \<and> (approvedAt 3000)\<lparr>updatedAt := 0\<rparr> \<noteq> (approvedAt 2000)\<lparr>updatedAt := 0\<rparr>"
proof -
  have second: "handleWebhook 3000 ''v1'' APPROVED noData (approvedWorld 2000)
       = Inr (approvedAt 3000, redeliveredWorld 3000)"
    by (simp add: handleWebhook_def getKycByVerificationId_def findOne_def
      handleWebhookAssign_def requiresManualReview_def noData_def save_def approvedAt_def
      approvedWorld_def redeliveredWorld_def handleWebhookEvents_def caseU1_def Let_def)
  have stored: "getKycByVerificationId ''v1'' (approvedWorld 2000) = Inr (approvedAt 2000)"
    "getKycByVerificationId ''v1'' (redeliveredWorld 3000) = Inr (approvedAt 3000)"
    by (simp_all add: getKycByVerificationId_def findOne_def approvedWorld_def
        redeliveredWorld_def approvedAt_def caseU1_def)
  have neq: "(approvedAt 3000)\<lparr>updatedAt := 0\<rparr> \<noteq> (approvedAt 2000)\<lparr>updatedAt := 0\<rparr>"
  proof
    assume "(approvedAt 3000)\<lparr>updatedAt := 0\<rparr> = (approvedAt 2000)\<lparr>updatedAt := 0\<rparr>"
    then have "completedAt ((approvedAt 3000)\<lparr>updatedAt := 0\<rparr>)
             = completedAt ((approvedAt 2000)\<lparr>updatedAt := 0\<rparr>)" by (rule arg_cong)
    then show False by (simp add: approvedAt_def)
  qed
  show ?thesis using approve_world1[of 2000] second stored neq by (simp add: approvedAt_def)
qed

section \<open>C2: escalation takes precedence\<close>

text \<open>
  C2. When the payload of a webhook carries a risk assessment of level \<open>high\<close>, or a
  truthy \<open>requiresReview\<close>, and the verification id is that of a stored case, the webhook
  succeeds, and the record it stores has the status RequiresReview and the manual-review
  flag set, whatever status the provider reported: it is never stored as Approved.
\<close>

theorem escalation_precedence:
  assumes "(d_riskAssessment d = Some ra \<and> riskLevel ra = ''high'')
           \<or> truthyOpt (d_requiresReview d)"
      and "r \<in> set (rows w)" and "verificationId r = vid"
  shows "\<exists>k w'. handleWebhook now vid st d w = Inr (k, w')
          \<and> status k = REQUIRES_REVIEW \<and> isManualReview k \<and> status k \<noteq> APPROVED
          \<and> getKycByVerificationId vid w' = Inr k"
proof -
  from assms(1) have esc: "requiresManualReview d"
    by (auto simp: requiresManualReview_def)
  from assms(2,3) obtain kyc where f: "find (\<lambda>r. verificationId r = vid) (rows w) = Some kyc"
    by (cases "find (\<lambda>r. verificationId r = vid) (rows w)") (auto simp: find_None_iff)
  define k where "k = (handleWebhookAssign now st d kyc)\<lparr>updatedAt := now\<rparr>"
  define w' where "w' = \<lparr>rows = map (\<lambda>r. if kycId r = kycId kyc then k else r) (rows w),
            emitted = emitted w @ handleWebhookEvents (status kyc) st vid k\<rparr>"
  have run: "handleWebhook now vid st d w = Inr (k, w')"
    unfolding handleWebhook_Inr using f by (simp add: k_def w'_def)
  have "status k = REQUIRES_REVIEW" "isManualReview k"
    using esc by (simp_all add: k_def handleWebhookAssign_def Let_def)
  with run handleWebhook_stored[OF run] show ?thesis by auto
qed

text \<open>The theorem at a high-risk webhook that reports \<open>U1\<close>'s case as Approved.\<close>

theorem escalation_precedence_witness:
  "(d_riskAssessment highRiskData =
      Some \<lparr>riskLevel = ''high'', score = 85, flags = [''suspicious_document'']\<rparr>
    \<and> riskLevel \<lparr>riskLevel = ''high'', score = 85, flags = [''suspicious_document'']\<rparr> = ''high'')
   \<and> caseU1 \<in> set (rows world1) \<and> verificationId caseU1 = ''v1''
   \<and> (\<exists>k w'. handleWebhook 2000 ''v1'' APPROVED highRiskData world1 = Inr (k, w')
          \<and> status k = REQUIRES_REVIEW \<and> isManualReview k \<and> status k \<noteq> APPROVED
          \<and> getKycByVerificationId ''v1'' w' = Inr k)"
proof -
  have h1: "(d_riskAssessment highRiskData =
      Some \<lparr>riskLevel = ''high'', score = 85, flags = [''suspicious_document'']\<rparr>
    \<and> riskLevel \<lparr>riskLevel = ''high'', score = 85, flags = [''suspicious_document'']\<rparr> = ''high'')
    \<or> truthyOpt (d_requiresReview highRiskData)"
    by (simp add: highRiskData_def)
  have h2: "caseU1 \<in> set (rows world1)" by (simp add: world1_def)
  have h3: "verificationId caseU1 = ''v1''" by (simp add: caseU1_def)
  show ?thesis
    using escalation_precedence[OF h1 h2 h3, of 2000 APPROVED] h2 h3
    by (simp add: highRiskData_def)
qed

section \<open>C3: a second Initiate while the first case is Pending\<close>

text \<open>
  C3 asks that a second Initiate for a user, issued before any webhook has reached the
  first case, fail with a conflict. The first case is stored as Pending, and the guard of
  \<open>initiateKyc\<close> looks for a case that is InProgress only (its comment names both): the
  second Initiate of \<open>U1\<close> is accepted, and a second case of the same user is stored.
\<close>

theorem second_initiate_is_accepted:
  "initiateKyc provider1 1000 ''kyc-1'' dtoU1 world0 = Inr (caseU1, world1)
   \<and> status caseU1 = PENDING
   \<and> initiateKyc provider2 1500 ''kyc-2'' dtoU1 world1 = Inr (caseU1Second, world2)
   \<and> rows world2 = [caseU1, caseU1Second]
   \<and> userId caseU1Second = userId caseU1"
proof -
  have "initiateKyc provider2 1500 ''kyc-2'' dtoU1 world1 = Inr (caseU1Second, world2)"
    by (simp add: initiateKyc_def initiateKycCreate_def initiateRequest_def findOne_def
        world1_def provider2_def dtoU1_def createEntity_def saveNew_def caseU1_def
        caseU1Second_def world2_def Let_def)
  then show ?thesis using initiate_world0
    by (simp add: caseU1_def world2_def caseU1Second_def)
qed

section \<open>C4: the events of a webhook\<close>

text \<open>
  C4 asks that the approved event be emitted exactly when the stored status is Approved.
  The events are chosen by the status the provider reported, not by the status stored:
  the high-risk webhook that reports \<open>U1\<close>'s case as Approved stores it as
  RequiresReview and still emits the approved event.
\<close>

theorem approved_event_for_escalated_case:
  "handleWebhook 2000 ''v1'' APPROVED highRiskData world1 = Inr (escalatedCase, escalatedWorld)
   \<and> getKycByVerificationId ''v1'' escalatedWorld = Inr escalatedCase
   \<and> status escalatedCase = REQUIRES_REVIEW
   \<and> KycApproved ''kyc-1'' ''U1'' BASIC \<in> set (emitted escalatedWorld)
   \<and> KycApproved ''kyc-1'' ''U1'' BASIC \<notin> set (emitted world1)"
proof -
  have "handleWebhook 2000 ''v1'' APPROVED highRiskData world1
          = Inr (escalatedCase, escalatedWorld)"
    by (simp add: handleWebhook_def getKycByVerificationId_def findOne_def world1_def
      handleWebhookAssign_def requiresManualReview_def highRiskData_def save_def
      escalatedCase_def escalatedWorld_def handleWebhookEvents_def caseU1_def Let_def)
  moreover have "getKycByVerificationId ''v1'' escalatedWorld = Inr escalatedCase"
    by (simp add: getKycByVerificationId_def findOne_def escalatedWorld_def escalatedCase_def
        caseU1_def)
  ultimately show ?thesis
    by (simp add: escalatedCase_def escalatedWorld_def world1_def)
qed

text \<open>
  The other direction holds: a webhook that stores the case as Approved emits the
  approved event, and one that stores it as Rejected emits the rejected event.
\<close>

lemma stored_terminal_status_emits_event:
  assumes "handleWebhook now vid st d w = Inr (k, w')"
  shows "(status k = APPROVED \<longrightarrow>
            KycApproved (kycId k) (userId k) (level k) \<in> set (emitted w'))
       \<and> (status k = REJECTED \<longrightarrow>
            KycRejected (kycId k) (userId k) (rejectionReason k) \<in> set (emitted w'))"
proof -
  from assms obtain kyc where
      k: "k = (handleWebhookAssign now st d kyc)\<lparr>updatedAt := now\<rparr>"
      and w': "emitted w' = emitted w @ handleWebhookEvents (status kyc) st vid k"
    by (auto simp: handleWebhook_Inr)
  have "status k = (if requiresManualReview d then REQUIRES_REVIEW else st)"
    by (simp add: k handleWebhookAssign_def Let_def split: option.splits)
  then show ?thesis
    by (auto simp: w' handleWebhookEvents_def split: if_splits)
qed

section \<open>C5: the completion date\<close>

lemma reachable_world1: "reachable world1"
proof -
  have "reachable world0" unfolding world0_def by (rule reach_empty)
  moreover have "''kyc-1'' \<notin> kycId ` set (rows world0)" by (simp add: world0_def)
  ultimately show ?thesis using initiate_world0 by (rule reach_initiate)
qed



lemma escalate_world1:
  "handleWebhook 2000 ''v1'' APPROVED highRiskData world1 = Inr (escalatedCase, escalatedWorld)"
  by (simp add: handleWebhook_def getKycByVerificationId_def findOne_def world1_def
      handleWebhookAssign_def requiresManualReview_def highRiskData_def save_def
      escalatedCase_def escalatedWorld_def handleWebhookEvents_def caseU1_def Let_def)

lemma reachable_escalatedWorld: "reachable escalatedWorld"
  using reachable_world1 escalate_world1 by (rule reach_webhook)



lemma review_escalatedWorld:
  "manualReview 5000 ''kyc-1'' reviewDto escalatedWorld = Inr (reviewedCase, reviewedWorld)"
  by (simp add: manualReview_def getKycById_def findOne_def escalatedWorld_def
      escalatedCase_def caseU1_def reviewDto_def save_def reviewedCase_def reviewedWorld_def
      Let_def)



section \<open>C6: the attempt count\<close>

lemmas attempt_defs =
  attemptPending_def attemptRejected_def rejectionEvents_def rejectData_def caseU1_def
  firstRejectedWorld_def secondPendingWorld_def secondRejectedWorld_def thirdPendingWorld_def
  thirdRejectedWorld_def

lemmas webhook_defs =
  handleWebhook_def getKycByVerificationId_def findOne_def handleWebhookAssign_def
  requiresManualReview_def save_def handleWebhookEvents_def Let_def

lemmas retry_defs =
  retryKyc_def getKycById_def findOne_def retryRequest_def save_def Let_def

lemma attempts_step1:
  "handleWebhook 2000 ''v1'' REJECTED rejectData world1
     = Inr (attemptRejected caseU1 2000, firstRejectedWorld)"
  by (simp add: webhook_defs attempt_defs world1_def)

lemma attempts_step2:
  "retryKyc provider2 3000 ''kyc-1'' firstRejectedWorld
     = Inr (attemptPending 2 ''v2'' 3000, secondPendingWorld)"
  by (simp add: retry_defs attempt_defs provider2_def)

lemma attempts_step3:
  "handleWebhook 4000 ''v2'' REJECTED rejectData secondPendingWorld
     = Inr (attemptRejected (attemptPending 2 ''v2'' 3000) 4000, secondRejectedWorld)"
  by (simp add: webhook_defs attempt_defs)

lemma attempts_step4:
  "retryKyc provider3 5000 ''kyc-1'' secondRejectedWorld
     = Inr (attemptPending 3 ''v3'' 5000, thirdPendingWorld)"
  by (simp add: retry_defs attempt_defs provider3_def)

lemma attempts_step5:
  "handleWebhook 6000 ''v3'' REJECTED rejectData thirdPendingWorld
     = Inr (attemptRejected (attemptPending 3 ''v3'' 5000) 6000, thirdRejectedWorld)"
  by (simp add: webhook_defs attempt_defs)

lemma reachable_secondRejectedWorld: "reachable secondRejectedWorld"
proof -
  have "reachable firstRejectedWorld"
    using reachable_world1 attempts_step1 by (rule reach_webhook)
  then have "reachable secondPendingWorld" using attempts_step2 by (rule reach_retry)
  then show ?thesis using attempts_step3 by (rule reach_webhook)
qed

lemma reachable_thirdRejectedWorld: "reachable thirdRejectedWorld"
proof -
  have "reachable thirdPendingWorld"
    using reachable_secondRejectedWorld attempts_step4 by (rule reach_retry)
  then show ?thesis using attempts_step5 by (rule reach_webhook)
qed

text \<open>The primary keys of a reachable table are distinct.\<close>

lemma map_kycId_replace:
  "kycId k = i \<Longrightarrow> map kycId (map (\<lambda>r. if kycId r = i then k else r) rs) = map kycId rs"
  by (induction rs) auto

lemma reachable_distinct: "reachable w \<Longrightarrow> distinct (map kycId (rows w))"
proof (induction rule: reachable.induct)
  case reach_empty
  show ?case by simp
next
  case (reach_initiate w newId svc now idto k w')
  from initiateKyc_Inr[OF reach_initiate.hyps(3)]
  have "rows w' = rows w @ [k]" "kycId k = newId" by auto
  with reach_initiate.IH reach_initiate.hyps(2) show ?case by auto
next
  case (reach_webhook w now vid st d k w')
  from reach_webhook.hyps(2) obtain kyc where
      "k = (handleWebhookAssign now st d kyc)\<lparr>updatedAt := now\<rparr>"
      "rows w' = map (\<lambda>r. if kycId r = kycId kyc then k else r) (rows w)"
    by (auto simp: handleWebhook_Inr)
  with reach_webhook.IH show ?case
    by (simp add: map_kycId_replace handleWebhookAssign_ids del: map_map)
next
  case (reach_review w now i mdto k w')
  from manualReview_Inr[OF reach_review.hyps(2)] reach_review.IH show ?case
    by (auto simp: map_kycId_replace simp del: map_map)
next
  case (reach_retry w svc now i k w')
  from retryKyc_Inr[OF reach_retry.hyps(2)] reach_retry.IH show ?case
    by (auto simp: map_kycId_replace simp del: map_map)
next
  case (reach_update w now i udto k w')
  from updateKyc_success[OF reach_update.hyps(2)] reach_update.IH show ?case
    by (auto simp: map_kycId_replace objectAssign_def simp del: map_map)
qed

text \<open>
  Replacing the row of a loaded entity by one with the same attempt count leaves the
  attempt counts of the table as they are.
\<close>

lemma attemptCount_replace:
  assumes "distinct (map kycId rs)" and "kyc \<in> set rs"
    and "attemptCount k = attemptCount kyc"
  shows "map attemptCount (map (\<lambda>r. if kycId r = kycId kyc then k else r) rs)
           = map attemptCount rs"
proof -
  have "inj_on kycId (set rs)" using assms(1) by (simp add: distinct_map)
  then have "\<And>r. r \<in> set rs \<Longrightarrow> kycId r = kycId kyc \<Longrightarrow> r = kyc"
    using assms(2) by (auto dest: inj_onD)
  then show ?thesis using assms(3) by (auto simp: map_eq_conv)
qed


text \<open>
  C6. In every reachable state the attempt count of every case is between 1 and 3. The
  case Initiate stores has the count 1; a webhook, a manual review and an update leave
  the counts of the table as they are; the case Retry stores has the count of the loaded
  case plus one. A Retry of a case that has reached 3 attempts fails with the bad-request
  error, which is the one of the maximum of attempts when the status allows a retry.
\<close>

theorem attemptCount_bounds:
  "(reachable w \<longrightarrow> (\<forall>r\<in>set (rows w). 1 \<le> attemptCount r \<and> attemptCount r \<le> 3))
   \<and> (initiateKyc svc now newId idto w = Inr (k, w') \<longrightarrow>
        attemptCount k = 1 \<and> rows w' = rows w @ [k])
   \<and> (reachable w \<and> handleWebhook now vid st d w = Inr (k, w') \<longrightarrow>
        map attemptCount (rows w') = map attemptCount (rows w))
   \<and> (reachable w \<and> manualReview now i mdto w = Inr (k, w') \<longrightarrow>
        map attemptCount (rows w') = map attemptCount (rows w))
   \<and> (reachable w \<and> updateKyc now i udto w = Inr (k, w') \<longrightarrow>
        map attemptCount (rows w') = map attemptCount (rows w))
   \<and> (getKycById i w = Inr kyc \<and> retryKyc svc now i w = Inr (k, w') \<longrightarrow>
        attemptCount k = attemptCount kyc + 1)
   \<and> (getKycById i w = Inr kyc \<and> attemptCount kyc \<ge> 3 \<longrightarrow>
        (\<exists>msg. retryKyc svc now i w = Inl (BadRequestException msg))
        \<and> (status kyc = REJECTED \<or> status kyc = EXPIRED \<longrightarrow>
             retryKyc svc now i w = Inl (BadRequestException ''Maximum retry attempts reached'')))"
proof (intro conjI impI)
  assume "reachable w"
  then show "\<forall>r\<in>set (rows w). 1 \<le> attemptCount r \<and> attemptCount r \<le> 3"
    by (rule reachable_rows)
       (auto simp: createEntity_def handleWebhookAssign_def objectAssign_def Let_def
          split: option.splits)
next
  assume "initiateKyc svc now newId idto w = Inr (k, w')"
  from initiateKyc_Inr[OF this]
  show "attemptCount k = 1" "rows w' = rows w @ [k]"
    by (auto simp: createEntity_def)
next
  assume a: "reachable w \<and> handleWebhook now vid st d w = Inr (k, w')"
  then obtain kyc0 where f: "find (\<lambda>r. verificationId r = vid) (rows w) = Some kyc0"
      and k: "k = (handleWebhookAssign now st d kyc0)\<lparr>updatedAt := now\<rparr>"
      and w': "rows w' = map (\<lambda>r. if kycId r = kycId kyc0 then k else r) (rows w)"
    by (auto simp: handleWebhook_Inr)
  have "attemptCount k = attemptCount kyc0"
    by (simp add: k handleWebhookAssign_def Let_def split: option.splits)
  with attemptCount_replace[OF reachable_distinct, of w kyc0 k] a find_Some_prop[OF f]
  show "map attemptCount (rows w') = map attemptCount (rows w)" by (simp add: w')
next
  assume a: "reachable w \<and> manualReview now i mdto w = Inr (k, w')"
  then obtain kyc0 where g: "getKycById i w = Inr kyc0"
      and k: "attemptCount k = attemptCount kyc0"
      and w': "rows w' = map (\<lambda>r. if kycId r = kycId kyc0 then k else r) (rows w)"
    by (auto dest!: manualReview_Inr)
  with attemptCount_replace[OF reachable_distinct, of w kyc0 k] a getKycById_props[OF g]
  show "map attemptCount (rows w') = map attemptCount (rows w)" by (simp add: w')
next
  assume a: "reachable w \<and> updateKyc now i udto w = Inr (k, w')"
  then obtain kyc0 where g: "getKycById i w = Inr kyc0"
      and k: "attemptCount k = attemptCount kyc0"
      and w': "rows w' = map (\<lambda>r. if kycId r = kycId kyc0 then k else r) (rows w)"
    by (auto dest!: updateKyc_success simp: objectAssign_def)
  with attemptCount_replace[OF reachable_distinct, of w kyc0 k] a getKycById_props[OF g]
  show "map attemptCount (rows w') = map attemptCount (rows w)" by (simp add: w')
next
  assume "getKycById i w = Inr kyc \<and> retryKyc svc now i w = Inr (k, w')"
  then show "attemptCount k = attemptCount kyc + 1"
    by (auto dest!: retryKyc_Inr)
next
  assume a: "getKycById i w = Inr kyc \<and> attemptCount kyc \<ge> 3"
  then show "\<exists>msg. retryKyc svc now i w = Inl (BadRequestException msg)"
    by (simp add: retryKyc_def)
  assume "status kyc = REJECTED \<or> status kyc = EXPIRED"
  with a show "retryKyc svc now i w = Inl (BadRequestException ''Maximum retry attempts reached'')"
    by (auto simp: retryKyc_def)
qed


text \<open>
  The theorem along the three attempts of \<open>U1\<close>: the counts 1, 2 and 3 are reached, the
  webhooks leave them as they are, and the retry of the third rejected attempt fails. The
  review of the escalated case and an update of the Pending case leave the count as well.
\<close>

theorem attemptCount_bounds_witness:
  "reachable thirdRejectedWorld
   \<and> attemptRejected (attemptPending 3 ''v3'' 5000) 6000 \<in> set (rows thirdRejectedWorld)
   \<and> 1 \<le> attemptCount (attemptRejected (attemptPending 3 ''v3'' 5000) 6000)
   \<and> attemptCount (attemptRejected (attemptPending 3 ''v3'' 5000) 6000) \<le> 3
   \<and> initiateKyc provider1 1000 ''kyc-1'' dtoU1 world0 = Inr (caseU1, world1)
   \<and> attemptCount caseU1 = 1
   \<and> reachable world1
   \<and> handleWebhook 2000 ''v1'' REJECTED rejectData world1
        = Inr (attemptRejected caseU1 2000, firstRejectedWorld)
   \<and> map attemptCount (rows firstRejectedWorld) = map attemptCount (rows world1)
   \<and> reachable escalatedWorld
   \<and> manualReview 5000 ''kyc-1'' reviewDto escalatedWorld = Inr (reviewedCase, reviewedWorld)
   \<and> map attemptCount (rows reviewedWorld) = map attemptCount (rows escalatedWorld)
   \<and> (\<exists>k w'. updateKyc 2000 ''kyc-1'' patchB world1 = Inr (k, w')
          \<and> map attemptCount (rows w') = map attemptCount (rows world1))
   \<and> getKycById ''kyc-1'' secondRejectedWorld
        = Inr (attemptRejected (attemptPending 2 ''v2'' 3000) 4000)
   \<and> retryKyc provider3 5000 ''kyc-1'' secondRejectedWorld
        = Inr (attemptPending 3 ''v3'' 5000, thirdPendingWorld)
   \<and> attemptCount (attemptPending 3 ''v3'' 5000)
        = attemptCount (attemptRejected (attemptPending 2 ''v2'' 3000) 4000) + 1
   \<and> getKycById ''kyc-1'' thirdRejectedWorld
        = Inr (attemptRejected (attemptPending 3 ''v3'' 5000) 6000)
   \<and> attemptCount (attemptRejected (attemptPending 3 ''v3'' 5000) 6000) \<ge> 3
   \<and> status (attemptRejected (attemptPending 3 ''v3'' 5000) 6000) = REJECTED
   \<and> retryKyc provider1 7000 ''kyc-1'' thirdRejectedWorld
        = Inl (BadRequestException ''Maximum retry attempts reached'')"
proof -
  have m3: "attemptRejected (attemptPending 3 ''v3'' 5000) 6000 \<in> set (rows thirdRejectedWorld)"
    by (simp add: thirdRejectedWorld_def)
  have b3: "1 \<le> attemptCount (attemptRejected (attemptPending 3 ''v3'' 5000) 6000)
          \<and> attemptCount (attemptRejected (attemptPending 3 ''v3'' 5000) 6000) \<le> 3"
    using attemptCount_bounds[where w = thirdRejectedWorld] reachable_thirdRejectedWorld m3
    by blast
  have i1: "attemptCount caseU1 = 1"
    using attemptCount_bounds[where svc = provider1 and now = 1000 and newId = "''kyc-1''"
            and idto = dtoU1 and w = world0 and k = caseU1 and w' = world1] initiate_world0
    by blast
  have w1: "map attemptCount (rows firstRejectedWorld) = map attemptCount (rows world1)"
    using attemptCount_bounds[where w = world1 and now = 2000 and vid = "''v1''"
            and st = REJECTED and d = rejectData and k = "attemptRejected caseU1 2000"
            and w' = firstRejectedWorld] reachable_world1 attempts_step1
    by blast
  have r1: "map attemptCount (rows reviewedWorld) = map attemptCount (rows escalatedWorld)"
    using attemptCount_bounds[where w = escalatedWorld and now = 5000 and i = "''kyc-1''"
            and mdto = reviewDto and k = reviewedCase and w' = reviewedWorld]
          reachable_escalatedWorld review_escalatedWorld
    by blast
  have g1: "getKycById ''kyc-1'' world1 = Inr caseU1"
    by (simp add: getKycById_def findOne_def world1_def caseU1_def)
  have s1: "status caseU1 \<noteq> APPROVED" by (simp add: caseU1_def)
  have u1: "\<exists>k w'. updateKyc 2000 ''kyc-1'' patchB world1 = Inr (k, w')
          \<and> map attemptCount (rows w') = map attemptCount (rows world1)"
    using attemptCount_bounds[where w = world1 and now = 2000 and i = "''kyc-1''"
            and udto = patchB and k = "(objectAssign caseU1 patchB)\<lparr>updatedAt := 2000\<rparr>"
            and w' = "world1\<lparr>rows := snd (save 2000 (objectAssign caseU1 patchB) (rows world1))\<rparr>"]
          reachable_world1 updateKyc_Inr[OF g1 s1, of 2000 patchB]
    by blast
  have g2: "getKycById ''kyc-1'' secondRejectedWorld
        = Inr (attemptRejected (attemptPending 2 ''v2'' 3000) 4000)"
    by (simp add: getKycById_def findOne_def attempt_defs)
  have t2: "attemptCount (attemptPending 3 ''v3'' 5000)
        = attemptCount (attemptRejected (attemptPending 2 ''v2'' 3000) 4000) + 1"
    using attemptCount_bounds[where w = secondRejectedWorld and i = "''kyc-1''"
            and kyc = "attemptRejected (attemptPending 2 ''v2'' 3000) 4000"
            and svc = provider3 and now = 5000 and k = "attemptPending 3 ''v3'' 5000"
            and w' = thirdPendingWorld] g2 attempts_step4
    by blast
  have g3: "getKycById ''kyc-1'' thirdRejectedWorld
        = Inr (attemptRejected (attemptPending 3 ''v3'' 5000) 6000)"
    by (simp add: getKycById_def findOne_def attempt_defs)
  have a3: "attemptCount (attemptRejected (attemptPending 3 ''v3'' 5000) 6000) \<ge> 3"
    "status (attemptRejected (attemptPending 3 ''v3'' 5000) 6000) = REJECTED"
    by (simp_all add: attempt_defs)
  have f3: "retryKyc provider1 7000 ''kyc-1'' thirdRejectedWorld
        = Inl (BadRequestException ''Maximum retry attempts reached'')"
    using attemptCount_bounds[where w = thirdRejectedWorld and i = "''kyc-1''"
            and kyc = "attemptRejected (attemptPending 3 ''v3'' 5000) 6000"
            and svc = provider1 and now = 7000] g3 a3
    by blast
  show ?thesis
    using reachable_thirdRejectedWorld m3 b3 initiate_world0 i1 reachable_world1 attempts_step1
          w1 reachable_escalatedWorld review_escalatedWorld r1 u1 g2 attempts_step4 t2 g3 a3 f3
    by blast
qed

section \<open>C7: Retry\<close>



section \<open>C8: expiration\<close>

lemmas expiring_defs =
  expiringCase_def expiredApprovedCase_def renewedCase_def renewedApprovedCase_def
  expiringWorld_def expiredApprovedWorld_def renewedWorld_def twoApprovedWorld_def caseU1_def
  providerExpiring_def

lemmas initiate_defs =
  initiateKyc_def initiateKycCreate_def initiateRequest_def findOne_def createEntity_def
  saveNew_def isKycExpired_def Let_def

lemma expiring_step1:
  "initiateKyc providerExpiring 1000 ''kyc-1'' dtoU1 world0 = Inr (expiringCase, expiringWorld)"
  by (simp add: initiate_defs expiring_defs world0_def dtoU1_def)

lemma expiring_step2:
  "handleWebhook 2000 ''v1'' APPROVED noData expiringWorld
     = Inr (expiredApprovedCase, expiredApprovedWorld)"
  by (simp add: webhook_defs expiring_defs noData_def)

lemma expiring_step3:
  "initiateKyc provider2 3000 ''kyc-2'' dtoU1 expiredApprovedWorld
     = Inr (renewedCase, renewedWorld)"
  by (simp add: initiate_defs expiring_defs provider2_def dtoU1_def)

lemma expiring_step4:
  "handleWebhook 4000 ''v2'' APPROVED noData renewedWorld
     = Inr (renewedApprovedCase, twoApprovedWorld)"
  by (simp add: webhook_defs expiring_defs noData_def)

lemma reachable_expiredApprovedWorld: "reachable expiredApprovedWorld"
proof -
  have "reachable world0" unfolding world0_def by (rule reach_empty)
  moreover have "''kyc-1'' \<notin> kycId ` set (rows world0)" by (simp add: world0_def)
  ultimately have "reachable expiringWorld" using expiring_step1 by (rule reach_initiate)
  then show ?thesis using expiring_step2 by (rule reach_webhook)
qed

lemma reachable_twoApprovedWorld: "reachable twoApprovedWorld"
proof -
  have "''kyc-2'' \<notin> kycId ` set (rows expiredApprovedWorld)" by (simp add: expiring_defs)
  with reachable_expiredApprovedWorld have "reachable renewedWorld"
    using expiring_step3 by (rule reach_initiate)
  then show ?thesis using expiring_step4 by (rule reach_webhook)
qed

text \<open>The row an ordered \<open>findOne\<close> returns is a row of the table that satisfies the clause.\<close>

lemma foldl_pick_mem:
  "foldl (\<lambda>best x. if q x best then x else best) r rest \<in> set (r # rest)"
  by (induction rest arbitrary: r) auto

lemma findOneCompletedAtDesc_Some:
  assumes "findOneCompletedAtDesc P rs = Some c"
  shows "c \<in> set rs \<and> P c"
proof (cases "filter P rs")
  case Nil
  with assms show ?thesis by (simp add: findOneCompletedAtDesc_def)
next
  case (Cons r rest)
  with assms have "c = foldl (\<lambda>best x. if sortsBeforeDesc (completedAt x) (completedAt best)
                                then x else best) r rest"
    by (simp add: findOneCompletedAtDesc_def)
  then have "c \<in> set (r # rest)" using foldl_pick_mem[of _ r rest] by simp
  then have "c \<in> set (filter P rs)" using Cons by simp
  then show ?thesis by simp
qed

text \<open>In a table with distinct primary keys, the lookup by the key of a row finds that row.\<close>

lemma find_by_key:
  "distinct (map f xs) \<Longrightarrow> x \<in> set xs \<Longrightarrow> find (\<lambda>r. f r = f x) xs = Some x"
  by (induction xs) (auto simp: image_iff)

lemma getKycById_row:
  assumes "reachable w" and "c \<in> set (rows w)"
  shows "getKycById (kycId c) w = Inr c"
  using find_by_key[OF reachable_distinct[OF assms(1)] assms(2)]
  by (simp add: getKycById_Inr)

text \<open>
  C8, as the code has it. In a reachable state, let the Approved case that the lookup of
  the verification queries selects for a user (the one completed last) have an expiry date
  strictly in the past. A fetch of that case by its id returns it as stored, with the
  status Approved; \<open>isUserVerified\<close> is false for the user, whatever level is required,
  and \<open>getUserVerificationLevel\<close> gives no level.
\<close>

theorem expiration_is_lazy:
  assumes "reachable w"
    and "findOneCompletedAtDesc (\<lambda>r. userId r = uid \<and> status r = APPROVED) (rows w) = Some c"
    and "expiresAt c = Some e" and "e < now"
  shows "getKycById (kycId c) w = Inr c \<and> status c = APPROVED \<and> userId c = uid
       \<and> isUserVerified now uid requiredLevel w = False
       \<and> getUserVerificationLevel now uid w = None"
proof -
  from findOneCompletedAtDesc_Some[OF assms(2)]
  have c: "c \<in> set (rows w)" "userId c = uid" "status c = APPROVED" by simp_all
  have "isKycExpired now c" using assms(3,4) by (simp add: isKycExpired_def)
  then have "isUserVerified now uid requiredLevel w = False"
      "getUserVerificationLevel now uid w = None"
    using assms(2) by (simp_all add: isUserVerified_def getUserVerificationLevel_def)
  with getKycById_row[OF assms(1) c(1)] c show ?thesis by simp
qed

text \<open>The theorem at time 5000, when \<open>U1\<close>'s only case is the one that expired at 2500.\<close>

theorem expiration_is_lazy_witness:
  "reachable expiredApprovedWorld
   \<and> findOneCompletedAtDesc (\<lambda>r. userId r = ''U1'' \<and> status r = APPROVED)
        (rows expiredApprovedWorld) = Some expiredApprovedCase
   \<and> expiresAt expiredApprovedCase = Some 2500 \<and> (2500 :: int) < 5000
   \<and> getKycById ''kyc-1'' expiredApprovedWorld = Inr expiredApprovedCase
   \<and> status expiredApprovedCase = APPROVED
   \<and> isUserVerified 5000 ''U1'' None expiredApprovedWorld = False
   \<and> isUserVerified 5000 ''U1'' (Some BASIC) expiredApprovedWorld = False
   \<and> getUserVerificationLevel 5000 ''U1'' expiredApprovedWorld = None"
proof -
  have f: "findOneCompletedAtDesc (\<lambda>r. userId r = ''U1'' \<and> status r = APPROVED)
        (rows expiredApprovedWorld) = Some expiredApprovedCase"
    by (simp add: findOneCompletedAtDesc_def expiring_defs)
  have e: "expiresAt expiredApprovedCase = Some 2500" by (simp add: expiring_defs)
  have l: "(2500 :: int) < 5000" by simp
  have i: "kycId expiredApprovedCase = ''kyc-1''" by (simp add: expiring_defs)
  show ?thesis
    using expiration_is_lazy[OF reachable_expiredApprovedWorld f e l, of None]
          expiration_is_lazy[OF reachable_expiredApprovedWorld f e l, of "Some BASIC"]
          reachable_expiredApprovedWorld f e
    by (simp add: i)
qed

text \<open>
  C8 as stated fails: at time 5000 the first case of \<open>U1\<close> is stored as Approved and
  expired at 2500, and the user is verified all the same, by the case approved at 4000.
\<close>

theorem expiration_is_lazy_counterexample:
  "reachable twoApprovedWorld
   \<and> getKycById ''kyc-1'' twoApprovedWorld = Inr expiredApprovedCase
   \<and> userId expiredApprovedCase = ''U1''
   \<and> status expiredApprovedCase = APPROVED
   \<and> expiresAt expiredApprovedCase = Some 2500 \<and> (2500 :: int) < 5000
   \<and> isUserVerified 5000 ''U1'' None twoApprovedWorld = True
   \<and> getUserVerificationLevel 5000 ''U1'' twoApprovedWorld = Some BASIC"
proof -
  have "getKycById ''kyc-1'' twoApprovedWorld = Inr expiredApprovedCase"
    by (simp add: getKycById_def findOne_def expiring_defs)
  moreover have "findOneCompletedAtDesc (\<lambda>r. userId r = ''U1'' \<and> status r = APPROVED)
        (rows twoApprovedWorld) = Some renewedApprovedCase"
    by (simp add: findOneCompletedAtDesc_def expiring_defs)
  moreover have "\<not> isKycExpired 5000 renewedApprovedCase" "level renewedApprovedCase = BASIC"
    by (simp_all add: isKycExpired_def expiring_defs)
  ultimately show ?thesis
    using reachable_twoApprovedWorld
    by (simp add: isUserVerified_def getUserVerificationLevel_def)
       (simp add: expiring_defs)
qed

section \<open>C9: the signature verifier\<close>

text \<open>
  C9, as the code has it. The verifier returns a boolean for every body, signature,
  timestamp and configuration: whatever its \<open>try\<close> block throws is caught. Without a
  secret, or without a signature, the result is \<open>false\<close>; with both, the result says
  whether the signature is the expected one, so a signature of another length or of other
  characters gives \<open>false\<close>.
\<close>

theorem verifyWebhookSignature_total:
  "(\<exists>b. verifyWebhookSignature hmac secret payload sg ts = Inr b)
   \<and> (secret = None \<longrightarrow> verifyWebhookSignature hmac secret payload sg ts = Inr False)
   \<and> (sg = None \<longrightarrow> verifyWebhookSignature hmac secret payload sg ts = Inr False)
   \<and> (\<forall>key s. secret = Some key \<and> sg = Some s \<longrightarrow>
         verifyWebhookSignature hmac secret payload sg ts
           = Inr (s = hmac key (signedMessage ts payload)))"
  by (cases secret; cases sg)
     (auto simp: verifyWebhookSignature_def verifyWebhookSignatureTry_def timingSafeEqual_def
        Let_def)

text \<open>
  The theorem without a secret, with a signature that is too short, and with the
  expected signature of the body \<open>body\<close> at the timestamp \<open>17\<close>.
\<close>

theorem verifyWebhookSignature_total_witness:
  "verifyWebhookSignature exampleHmac None ''body'' (Some ''abc'') (Some ''17'') = Inr False
   \<and> verifyWebhookSignature exampleHmac (Some ''k'') ''body'' None (Some ''17'') = Inr False
   \<and> verifyWebhookSignature exampleHmac (Some ''k'') ''body'' (Some ''abc'') (Some ''17'')
       = Inr False
   \<and> verifyWebhookSignature exampleHmac (Some ''k'') ''body'' (Some ''k17.body'') (Some ''17'')
       = Inr True"
  using verifyWebhookSignature_total[of exampleHmac None "''body''" "Some ''abc''" "Some ''17''"]
        verifyWebhookSignature_total[of exampleHmac "Some ''k''" "''body''" None "Some ''17''"]
        verifyWebhookSignature_total[of exampleHmac "Some ''k''" "''body''" "Some ''abc''"
          "Some ''17''"]
        verifyWebhookSignature_total[of exampleHmac "Some ''k''" "''body''" "Some ''k17.body''"
          "Some ''17''"]
  by (simp add: exampleHmac_def)

text \<open>
  C9 as stated fails: without a secret the \<open>try\<close> block throws, and the verifier does
  not throw but returns \<open>false\<close>.
\<close>

theorem verifyWebhookSignature_missing_secret_counterexample:
  "verifyWebhookSignatureTry exampleHmac None ''body'' (Some ''abc'') None = Inl TypeError
   \<and> verifyWebhookSignature exampleHmac None ''body'' (Some ''abc'') None = Inr False"
  by (simp add: verifyWebhookSignature_def verifyWebhookSignatureTry_def)

section \<open>C10: metadata on update\<close>

text \<open>
  C10, as the code has it. An update of a stored case that is not Approved, with a patch
  that carries a metadata object, succeeds and stores the patch's metadata in place of the
  case's. It is a webhook whose payload carries a metadata object that stores the merge:
  the keys of the payload with the payload's values, every other key as it was.
\<close>

theorem metadata_on_update:
  "(getKycById i w = Inr kyc \<and> status kyc \<noteq> APPROVED \<and> u_metadata dto = Some m \<longrightarrow>
      (\<exists>k w'. updateKyc now i dto w = Inr (k, w') \<and> metadata k = Some m
               \<and> getKycById i w' = Inr k))
   \<and> (getKycByVerificationId vid w = Inr kyc' \<and> d_metadata d = Some m' \<longrightarrow>
      (\<exists>k w'. handleWebhook now vid st d w = Inr (k, w')
               \<and> metadata k = Some (spread (metadata kyc') ++ m')
               \<and> (\<forall>key. spread (metadata k) key =
                      (case m' key of Some v \<Rightarrow> Some v | None \<Rightarrow> spread (metadata kyc') key))
               \<and> getKycByVerificationId vid w' = Inr k))"
proof (intro conjI impI)
  assume a: "getKycById i w = Inr kyc \<and> status kyc \<noteq> APPROVED \<and> u_metadata dto = Some m"
  then have run: "updateKyc now i dto w =
           Inr ((objectAssign kyc dto)\<lparr>updatedAt := now\<rparr>,
                w\<lparr>rows := snd (save now (objectAssign kyc dto) (rows w))\<rparr>)"
    by (simp add: updateKyc_Inr)
  have "kycId (objectAssign kyc dto) = kycId kyc" by (simp add: objectAssign_def)
  from getKycById_after_save[OF _ this, of i w now] a
  have "getKycById i (w\<lparr>rows := snd (save now (objectAssign kyc dto) (rows w))\<rparr>)
          = Inr ((objectAssign kyc dto)\<lparr>updatedAt := now\<rparr>)" by simp
  moreover have "metadata ((objectAssign kyc dto)\<lparr>updatedAt := now\<rparr>) = Some m"
    using a by (simp add: objectAssign_def)
  ultimately show "\<exists>k w'. updateKyc now i dto w = Inr (k, w') \<and> metadata k = Some m
               \<and> getKycById i w' = Inr k"
    using run by simp
next
  assume a: "getKycByVerificationId vid w = Inr kyc' \<and> d_metadata d = Some m'"
  then have f: "find (\<lambda>r. verificationId r = vid) (rows w) = Some kyc'"
    by (simp add: getKycByVerificationId_def findOne_def split: option.splits)
  define k where "k = (handleWebhookAssign now st d kyc')\<lparr>updatedAt := now\<rparr>"
  define w' where "w' = \<lparr>rows = map (\<lambda>r. if kycId r = kycId kyc' then k else r) (rows w),
            emitted = emitted w @ handleWebhookEvents (status kyc') st vid k\<rparr>"
  have run: "handleWebhook now vid st d w = Inr (k, w')"
    unfolding handleWebhook_Inr using f by (simp add: k_def w'_def)
  have md: "metadata k = Some (spread (metadata kyc') ++ m')"
    using a by (simp add: k_def handleWebhookAssign_def Let_def split: option.splits)
  have "\<forall>key. spread (metadata k) key =
                      (case m' key of Some v \<Rightarrow> Some v | None \<Rightarrow> spread (metadata kyc') key)"
    by (simp add: md map_add_def)
  with run md handleWebhook_stored[OF run]
  show "\<exists>k w'. handleWebhook now vid st d w = Inr (k, w')
               \<and> metadata k = Some (spread (metadata kyc') ++ m')
               \<and> (\<forall>key. spread (metadata k) key =
                      (case m' key of Some v \<Rightarrow> Some v | None \<Rightarrow> spread (metadata kyc') key))
               \<and> getKycByVerificationId vid w' = Inr k"
    by blast
qed


text \<open>
  The theorem at \<open>U1\<close>'s case with the metadata \<open>{a: 1}\<close>: the update with \<open>{b: 2}\<close>
  stores \<open>{b: 2}\<close>, the webhook with \<open>{b: 2}\<close> stores \<open>{a: 1, b: 2}\<close>.
\<close>

theorem metadata_on_update_witness:
  "getKycById ''kyc-1'' metadataWorld = Inr caseWithMetadata
   \<and> status caseWithMetadata \<noteq> APPROVED
   \<and> u_metadata patchB = Some [''b'' \<mapsto> JNum 2]
   \<and> (\<exists>k w'. updateKyc 2000 ''kyc-1'' patchB metadataWorld = Inr (k, w')
               \<and> metadata k = Some [''b'' \<mapsto> JNum 2]
               \<and> getKycById ''kyc-1'' w' = Inr k)
   \<and> getKycByVerificationId ''v1'' metadataWorld = Inr caseWithMetadata
   \<and> d_metadata dataB = Some [''b'' \<mapsto> JNum 2]
   \<and> (\<exists>k w'. handleWebhook 2000 ''v1'' IN_PROGRESS dataB metadataWorld = Inr (k, w')
               \<and> metadata k = Some [''a'' \<mapsto> JNum 1, ''b'' \<mapsto> JNum 2]
               \<and> spread (metadata k) ''a'' = Some (JNum 1)
               \<and> spread (metadata k) ''b'' = Some (JNum 2)
               \<and> getKycByVerificationId ''v1'' w' = Inr k)"
proof -
  have g: "getKycById ''kyc-1'' metadataWorld = Inr caseWithMetadata"
    by (simp add: getKycById_def findOne_def metadataWorld_def caseWithMetadata_def caseU1_def)
  have gv: "getKycByVerificationId ''v1'' metadataWorld = Inr caseWithMetadata"
    by (simp add: getKycByVerificationId_def findOne_def metadataWorld_def caseWithMetadata_def
        caseU1_def)
  have st: "status caseWithMetadata \<noteq> APPROVED"
    by (simp add: caseWithMetadata_def caseU1_def)
  have pm: "u_metadata patchB = Some [''b'' \<mapsto> JNum 2]" by (simp add: patchB_def)
  have dm: "d_metadata dataB = Some [''b'' \<mapsto> JNum 2]" by (simp add: dataB_def)
  have sp: "spread (metadata caseWithMetadata) = [''a'' \<mapsto> JNum 1]"
    by (simp add: caseWithMetadata_def)
  have mg: "[''a'' \<mapsto> JNum 1] ++ [''b'' \<mapsto> JNum 2] = [''a'' \<mapsto> JNum 1, ''b'' \<mapsto> JNum 2]"
    by simp
  show ?thesis
    using metadata_on_update[where i = "''kyc-1''" and w = metadataWorld
            and kyc = caseWithMetadata and dto = patchB and m = "[''b'' \<mapsto> JNum 2]"
            and now = 2000 and vid = "''v1''" and kyc' = caseWithMetadata and d = dataB
            and m' = "[''b'' \<mapsto> JNum 2]" and st = IN_PROGRESS]
          g gv st pm dm
    by (auto simp: sp)
qed

text \<open>
  C10 as stated fails: the update with the patch \<open>{b: 2}\<close> stores a metadata object
  without the key \<open>a\<close>, which the case had and the patch does not mention; the merge
  would have kept it.
\<close>

theorem metadata_on_update_counterexample:
  "updateKyc 2000 ''kyc-1'' patchB metadataWorld = Inr (patchedCase, patchedWorld)
   \<and> getKycById ''kyc-1'' patchedWorld = Inr patchedCase
   \<and> spread (metadata caseWithMetadata) ''a'' = Some (JNum 1)
   \<and> spread (u_metadata patchB) ''a'' = None
   \<and> (spread (metadata caseWithMetadata) ++ spread (u_metadata patchB)) ''a'' = Some (JNum 1)
   \<and> spread (metadata patchedCase) ''a'' = None"
proof -
  have "updateKyc 2000 ''kyc-1'' patchB metadataWorld = Inr (patchedCase, patchedWorld)"
    by (simp add: updateKyc_def getKycById_def findOne_def metadataWorld_def
        caseWithMetadata_def caseU1_def objectAssign_def patchB_def save_def Let_def
        patchedCase_def patchedWorld_def)
  moreover have "getKycById ''kyc-1'' patchedWorld = Inr patchedCase"
    by (simp add: getKycById_def findOne_def patchedWorld_def patchedCase_def
        caseWithMetadata_def caseU1_def)
  ultimately show ?thesis
    by (simp add: caseWithMetadata_def patchB_def patchedCase_def map_add_def)
qed

end
